theory Spec2Isabelle
  imports Complex_Main "HOL-Library.Log_Nat"
begin

section \<open>JavaScript strings and numbers used by the validators\<close>

text \<open>
  Strings are lists of bytes. The case conversions of the source act on the ASCII
  letters only in this model; country codes, service names and time fields are ASCII.
\<close>

definition toUpperChar :: "char \<Rightarrow> char" where
  "toUpperChar c =
     (let n = (of_char c :: nat) in if 97 \<le> n \<and> n \<le> 122 then char_of (n - 32) else c)"

definition toLowerChar :: "char \<Rightarrow> char" where
  "toLowerChar c =
     (let n = (of_char c :: nat) in if 65 \<le> n \<and> n \<le> 90 then char_of (n + 32) else c)"

definition toUpperCase :: "string \<Rightarrow> string" where
  "toUpperCase s = map toUpperChar s"

definition toLowerCase :: "string \<Rightarrow> string" where
  "toLowerCase s = map toLowerChar s"

text \<open>\<open>hay.includes(needle)\<close> on strings: \<open>needle\<close> occurs in \<open>hay\<close> as a contiguous run.\<close>

definition startsWith :: "string \<Rightarrow> string \<Rightarrow> bool" where
  "startsWith hay needle = (take (length needle) hay = needle)"

fun includes_str :: "string \<Rightarrow> string \<Rightarrow> bool" where
  "includes_str [] needle = (needle = [])"
| "includes_str (h # hs) needle = (startsWith (h # hs) needle \<or> includes_str hs needle)"

text \<open>\<open>s.split(c)\<close> for a one-character separator; the result is never empty.\<close>

fun splitOn :: "char \<Rightarrow> string \<Rightarrow> string list" where
  "splitOn c [] = [[]]"
| "splitOn c (x # xs) =
     (if x = c then [] # splitOn c xs
      else (case splitOn c xs of y # ys \<Rightarrow> (x # y) # ys | [] \<Rightarrow> [[x]]))"

text \<open>
  \<open>Number(s)\<close> on the fields of a time string. \<open>None\<close> stands for NaN. A field made of
  decimal digits reads as its value and the empty field as 0; any other field reads as
  NaN here. (JavaScript also accepts signs, fractions, exponents, radix prefixes and
  surrounding white space; time-of-day fields have none of these, and the theorems
  below are stated for digit fields.)
\<close>

definition isDigit :: "char \<Rightarrow> bool" where
  "isDigit c = (48 \<le> (of_char c :: nat) \<and> (of_char c :: nat) \<le> 57)"

definition decimalValue :: "string \<Rightarrow> nat" where
  "decimalValue s = foldl (\<lambda>acc c. 10 * acc + ((of_char c :: nat) - 48)) 0 s"

definition Number :: "string \<Rightarrow> int option" where
  "Number s = (if list_all isDigit s then Some (int (decimalValue s)) else None)"

text \<open>Comparisons of numbers: every comparison with NaN is false.\<close>

definition numLe :: "int option \<Rightarrow> int option \<Rightarrow> bool" where
  "numLe a b = (case (a, b) of (Some x, Some y) \<Rightarrow> x \<le> y | _ \<Rightarrow> False)"

definition numLt :: "int option \<Rightarrow> int option \<Rightarrow> bool" where
  "numLt a b = (case (a, b) of (Some x, Some y) \<Rightarrow> x < y | _ \<Rightarrow> False)"

definition numGe :: "int option \<Rightarrow> int option \<Rightarrow> bool" where
  "numGe a b = numLe b a"

section \<open>Pickup-time rules\<close>

text \<open>
  \<open>timeToMinutes\<close>: split at the colons, convert every field, take the first two as
  hours and minutes. A missing minutes field is \<open>undefined\<close> and makes the sum NaN.
\<close>

definition timeToMinutes :: "string \<Rightarrow> int option" where
  "timeToMinutes timeStr =
     (case map Number (splitOn CHR '':'' timeStr) of
        Some hours # Some minutes # _ \<Rightarrow> Some (hours * 60 + minutes)
      | _ \<Rightarrow> None)"

text \<open>\<open>pickupTime.split(' ')[1] || pickupTime\<close>: a missing or empty second part is falsy.\<close>

definition pickupTimeStr :: "string \<Rightarrow> string" where
  "pickupTimeStr pickupTime =
     (case splitOn CHR '' '' pickupTime of
        _ # t # _ \<Rightarrow> (if t = [] then pickupTime else t)
      | _ \<Rightarrow> pickupTime)"

text \<open>
  The window rule of \<open>backend/cron/coverzyCron.js\<close>. A time that is \<open>null\<close> or
  \<open>undefined\<close> (\<open>None\<close>) makes \<open>split\<close> throw; the \<open>catch\<close> returns false.
\<close>

definition isPickupTimeValid_A :: "string option \<Rightarrow> string option \<Rightarrow> string option \<Rightarrow> bool" where
  "isPickupTimeValid_A pickupTime cutoffTime cipTime =
     (case (pickupTime, cutoffTime, cipTime) of
        (Some pt, Some ct, Some cip) \<Rightarrow>
          (let pickupMinutes = timeToMinutes (pickupTimeStr pt);
               cutoffMinutes = timeToMinutes ct;
               cipMinutes = timeToMinutes cip
           in if numLe cutoffMinutes cipMinutes
              then numGe pickupMinutes cutoffMinutes \<and> numLe pickupMinutes cipMinutes
              else numGe pickupMinutes cutoffMinutes \<or> numLe pickupMinutes cipMinutes)
      | _ \<Rightarrow> False)"

text \<open>
  The cutoff-only rule of the second generation of the job (\<open>unnamed/part_003\<close>); the
  third argument is accepted and never read.
\<close>

definition isPickupTimeValid_B :: "string option \<Rightarrow> string option \<Rightarrow> string option \<Rightarrow> bool" where
  "isPickupTimeValid_B pickupTime cutoffTime cipTime =
     (case (pickupTime, cutoffTime) of
        (Some pt, Some ct) \<Rightarrow>
          (let pickupMinutes = timeToMinutes (pickupTimeStr pt);
               cutoffMinutes = timeToMinutes ct
           in numLt pickupMinutes cutoffMinutes)
      | _ \<Rightarrow> False)"

section \<open>Destination and supplier rules\<close>

definition isDestinationAllowed :: "string \<Rightarrow> string list \<Rightarrow> bool" where
  "isDestinationAllowed destinationCountry allowedCountries =
     (toUpperCase destinationCountry \<in> set allowedCountries)"

text \<open>\<open>!companyName\<close> holds for \<open>undefined\<close>, \<open>null\<close> and the empty string.\<close>

definition isSupplierAllowed :: "string option \<Rightarrow> string list \<Rightarrow> bool" where
  "isSupplierAllowed companyName allowedSuppliers =
     (case companyName of
        None \<Rightarrow> False
      | Some cn \<Rightarrow>
          if cn = [] then False
          else list_ex (\<lambda>supplier.
                 includes_str (toLowerCase supplier) (toLowerCase cn) \<or>
                 includes_str (toLowerCase cn) (toLowerCase supplier)) allowedSuppliers)"

section \<open>Value and service rules of the second generation\<close>

text \<open>
  Amounts and rates are JavaScript numbers, that is IEEE 754 doubles. A finite double
  is modelled by the rational it equals; \<open>NaN\<close> and the two infinities are kept apart,
  and zero carries no sign (the one division of the program has a positive divisor).
\<close>

datatype jsnum = NaN | PosInf | NegInf | Num rat

text \<open>
  Rounding to the nearest double, ties to the even significand: 53 significant bits,
  the spacing of the subnormal numbers below \<open>2 powi - 1022\<close>, overflow to infinity from
  \<open>2 powi 1024\<close> on. \<open>ilog2 a\<close> is the exponent \<open>e\<close> with \<open>2 powi e \<le> a < 2 powi (e + 1)\<close>.
\<close>

definition pow2 :: "int \<Rightarrow> rat" where
  "pow2 e = 2 powi e"

definition ilog2 :: "rat \<Rightarrow> int" where
  "ilog2 a =
     (let (p, q) = quotient_of a; e = bitlen p - bitlen q
      in if pow2 e \<le> a then e else e - 1)"

definition roundHalfEven :: "rat \<Rightarrow> int" where
  "roundHalfEven x =
     (let f = \<lfloor>x\<rfloor>; d = x - of_int f
      in if d < 1 / 2 then f else if 1 / 2 < d then f + 1 else if even f then f else f + 1)"

definition ulp :: "rat \<Rightarrow> rat" where
  "ulp a = pow2 (max (ilog2 a) (- 1022) - 52)"

definition roundPos :: "rat \<Rightarrow> rat" where
  "roundPos a = of_int (roundHalfEven (a / ulp a)) * ulp a"

definition round64 :: "rat \<Rightarrow> jsnum" where
  "round64 x =
     (if x = 0 then Num 0
      else if 0 < x then (if pow2 1024 \<le> roundPos x then PosInf else Num (roundPos x))
      else (if pow2 1024 \<le> roundPos (- x) then NegInf else Num (- roundPos (- x))))"

text \<open>
  A numeric field arrives as a JSON number or as the decimal text of a \<open>DECIMAL\<close>
  column; \<open>Num q\<close> then stands for the number \<open>q\<close> that is written there, and
  \<open>parseFloat\<close> reads it as the nearest double. A field that is not numeric reads as
  \<open>NaN\<close>.
\<close>

definition parseFloat :: "jsnum \<Rightarrow> jsnum" where
  "parseFloat x = (case x of Num q \<Rightarrow> round64 q | _ \<Rightarrow> x)"

definition isNaN :: "jsnum \<Rightarrow> bool" where
  "isNaN x = (x = NaN)"

text \<open>\<open>a <= b\<close> and \<open>a >= b\<close> on numbers: false as soon as one side is \<open>NaN\<close>.\<close>

definition jsLe :: "jsnum \<Rightarrow> jsnum \<Rightarrow> bool" where
  "jsLe a b =
     (case (a, b) of
        (NaN, _) \<Rightarrow> False
      | (_, NaN) \<Rightarrow> False
      | (NegInf, _) \<Rightarrow> True
      | (_, PosInf) \<Rightarrow> True
      | (Num x, Num y) \<Rightarrow> x \<le> y
      | _ \<Rightarrow> False)"

definition jsGe :: "jsnum \<Rightarrow> jsnum \<Rightarrow> bool" where
  "jsGe a b = jsLe b a"

text \<open>\<open>a / b\<close> on numbers: the exact quotient rounded to the nearest double.\<close>

definition jsDiv :: "jsnum \<Rightarrow> jsnum \<Rightarrow> jsnum" where
  "jsDiv a b =
     (case (a, b) of
        (Num x, Num y) \<Rightarrow>
          (if y = 0 then (if x = 0 then NaN else if 0 < x then PosInf else NegInf)
           else round64 (x / y))
      | (Num x, PosInf) \<Rightarrow> Num 0
      | (Num x, NegInf) \<Rightarrow> Num 0
      | (PosInf, Num y) \<Rightarrow> (if 0 \<le> y then PosInf else NegInf)
      | (NegInf, Num y) \<Rightarrow> (if 0 \<le> y then NegInf else PosInf)
      | _ \<Rightarrow> NaN)"

text \<open>The \<open>throw\<close> on an unusable amount or rate is caught in the same function, which then returns 0.\<close>

definition convertInrToUsd :: "jsnum \<Rightarrow> jsnum \<Rightarrow> jsnum" where
  "convertInrToUsd inrAmount usdToInrRate =
     (let inrValue = parseFloat inrAmount;
          rate = parseFloat usdToInrRate
      in if isNaN inrValue \<or> isNaN rate \<or> jsLe rate (Num 0) then Num 0
         else jsDiv inrValue rate)"

definition isShipmentValueValid :: "jsnum \<Rightarrow> jsnum \<Rightarrow> jsnum \<Rightarrow> bool" where
  "isShipmentValueValid packageValue minShipmentValueUsd usdToInrRate =
     (let usdValue = convertInrToUsd packageValue usdToInrRate;
          minValue = parseFloat minShipmentValueUsd
      in jsGe usdValue minValue)"

record carrierInfo =
  carrierCode :: string
  deliveryDays :: nat

definition getCarrierInfo :: "string \<Rightarrow> string \<Rightarrow> carrierInfo option" where
  "getCarrierInfo destinationCountry serviceType =
     (let destination = toUpperCase destinationCountry;
          service = toLowerCase serviceType
      in if (destination = ''USA'' \<or> destination = ''US'' \<or> destination = ''UNITED STATES'')
            \<and> service = ''ship+''
         then Some \<lparr>carrierCode = ''USPS'', deliveryDays = 15\<rparr>
         else if (destination = ''USA'' \<or> destination = ''US'' \<or> destination = ''UNITED STATES'')
            \<and> service = ''shipd''
         then Some \<lparr>carrierCode = ''USPS'', deliveryDays = 12\<rparr>
         else if (destination = ''UK'' \<or> destination = ''GB'' \<or> destination = ''UNITED KINGDOM'')
            \<and> service = ''ship+''
         then Some \<lparr>carrierCode = ''Royal Mail'', deliveryDays = 10\<rparr>
         else if (destination = ''UK'' \<or> destination = ''GB'' \<or> destination = ''UNITED KINGDOM'')
            \<and> service = ''shipd''
         then Some \<lparr>carrierCode = ''Royal Mail'', deliveryDays = 8\<rparr>
         else None)"

definition isServiceDestinationValid :: "string \<Rightarrow> string \<Rightarrow> bool" where
  "isServiceDestinationValid destinationCountry serviceType =
     (getCarrierInfo destinationCountry serviceType \<noteq> None)"

section \<open>Records exchanged with the logistics platform and the underwriting partner\<close>

text \<open>
  A field that the source tests for absence, or whose absence it survives, is an option:
  \<open>None\<close> is the absent field (\<open>undefined\<close>), and stands for \<open>null\<close> as well wherever the
  source only tests the field for truthiness. The other fields are always delivered.
\<close>

record shipmentDetails =
  Name :: string
  Destination_Country :: string
  Service_Type :: string
  Create_Pick_Up_Date :: "string option"
  Package_Value :: jsnum
  Description :: string
  Customer_ID :: string

record customerInfo =
  name :: "string option"
  last_name :: "string option"
  company_name :: "string option"
  email :: "string option"

record address =
  label :: string
  country_code :: "string option"

text \<open>The settings snapshot returned by \<open>getCoverzySettings\<close>; the first generation reads the first five fields.\<close>

record settings =
  suppliers :: "string list"
  countries :: "string list"
  maxShipments :: int
  cutoffTime :: "string option"
  cipTime :: "string option"
  minShipmentValueUsd :: jsnum
  usdToInrRate :: jsnum

record payload =
  transportMode :: string
  shipment_awb :: string
  departureDate :: "string option"
  origin :: string
  destination :: string
  eta :: "string option"
  carrierCode :: string
  amount :: jsnum
  currency :: string
  goods_description :: string
  customerName :: string
  customerCountry :: string
  customerEmail :: string

text \<open>
  The amount of a response reaches the database untested, and there an absent amount
  and a \<open>null\<close> amount fare differently: this one field keeps the two apart.
\<close>

datatype 'a field = Undefined | Null | Value 'a

record covrzyResponse =
  status :: "string option"
  policyId :: "string option"
  amount :: "rat field"

text \<open>
  What a validated shipment carries into the processing phase, and what processing one
  shipment returns (\<open>pdfUrl\<close> is always \<open>null\<close> and is left out).
\<close>

record validationResult =
  vAwb :: string
  vShipmentDetails :: shipmentDetails
  vCustomerInfo :: customerInfo

record processResult =
  coverzyResponse :: covrzyResponse
  savedToDatabase :: bool
  error :: "string option"

text \<open>
  Every \<open>throw\<close> of the job is a value of \<open>failure\<close>; the message text of the JavaScript
  \<open>Error\<close> is not kept, only which \<open>throw\<close> raised it.
\<close>

datatype failure =
    DestinationNotAllowed
  | ServiceUnsupported
  | PickupTimeOutOfWindow
  | ValueBelowThreshold
  | SupplierNotAllowed
  | LookupFailed
  | CovrzyApiFailed
  | DatabaseFailed
  | UndefinedBindParameter
  | SettingsMissing
  | ListingFailed

section \<open>The outside world and the durable state\<close>

text \<open>
  The services the job calls are functions of a \<open>world\<close>, fixed for one run; a call that
  throws returns \<open>None\<close> (\<open>getCustomerDetails\<close> catches its own failure and returns
  \<open>null\<close>, also \<open>None\<close>). \<open>dailyShipments\<close> is what \<open>getDailyShipmentsData\<close> returns for
  a date: the AWB numbers it extracts from the listing, empty ones dropped.
  \<open>settingsRow\<close> is the newest row of the settings table, already split into its lists.
  \<open>dbAvailable\<close> says whether the connection pool hands out connections during the
  run, and \<open>yesterdayDate\<close> is the value of \<open>getPreviousDate\<close> when the run starts. Pacing
  delays are not modelled.
\<close>

record world =
  dbAvailable :: bool
  settingsRow :: "settings option"
  dailyShipments :: "string \<Rightarrow> string list option"
  getShipmentDetails :: "string \<Rightarrow> shipmentDetails option"
  getCustomerDetails :: "string \<Rightarrow> (customerInfo \<times> address list) option"
  covrzyApi :: "payload \<Rightarrow> covrzyResponse option"
  yesterdayDate :: string

record shipmentRow =
  shipment_id :: string
  supplier_name :: "string option"
  destination_country :: string
  policy_id :: "string option"
  row_amount :: "rat option"
  row_currency :: string
  view_pdf :: "string option"

record errorLogEntry =
  jobName :: string
  errorType :: string

record summary =
  stat_totalShipments :: nat
  stat_validShipments :: nat
  stat_processedShipments :: nat
  stat_successfulShipments :: nat
  stat_failedValidation :: nat
  stat_failedProcessing :: nat

datatype email = CronErrorEmail string | DailySummaryEmail summary

text \<open>
  The state a run changes: the two tables, and the calls made to the underwriting
  partner and to the mailer, oldest first.
\<close>

record state =
  coverzy_shipments :: "shipmentRow list"
  cron_error_logs :: "errorLogEntry list"
  covrzyCalls :: "payload list"
  emails :: "email list"

definition logErrorToDatabase :: "world \<Rightarrow> errorLogEntry \<Rightarrow> state \<Rightarrow> state" where
  "logErrorToDatabase w errorData st =
     (if dbAvailable w then st\<lparr>cron_error_logs := cron_error_logs st @ [errorData]\<rparr> else st)"

definition sendCronErrorEmail :: "string \<Rightarrow> state \<Rightarrow> state" where
  "sendCronErrorEmail ty st = st\<lparr>emails := emails st @ [CronErrorEmail ty]\<rparr>"

definition sendDailySummaryEmail :: "summary \<Rightarrow> state \<Rightarrow> state" where
  "sendDailySummaryEmail stats st = st\<lparr>emails := emails st @ [DailySummaryEmail stats]\<rparr>"

definition getCoverzySettings :: "world \<Rightarrow> state \<Rightarrow> settings option \<times> state" where
  "getCoverzySettings w st =
     (case (if dbAvailable w then settingsRow w else None) of
        Some s \<Rightarrow> (Some s, st)
      | None \<Rightarrow>
          (None, logErrorToDatabase w
                   \<lparr>jobName = ''coverzy_daily_shipments'', errorType = ''database_error''\<rparr> st))"

text \<open>
  Modelled from the spec: the declaration of the table \<open>coverzy_shipments\<close> is not among
  the sources. The spec keys it uniquely by shipment id, which is what lets
  \<open>INSERT ... ON DUPLICATE KEY UPDATE\<close> rewrite the row of that id in place and insert
  a new row otherwise.
\<close>

fun upsertRow :: "shipmentRow \<Rightarrow> shipmentRow list \<Rightarrow> shipmentRow list" where
  "upsertRow r [] = [r]"
| "upsertRow r (x # xs) =
     (if shipment_id x = shipment_id r then r # xs else x # upsertRow r xs)"

text \<open>What a bind parameter that is not \<open>undefined\<close> puts into a column: \<open>null\<close> is SQL \<open>NULL\<close>.\<close>

definition sqlValue :: "'a field \<Rightarrow> 'a option" where
  "sqlValue x = (case x of Value v \<Rightarrow> Some v | _ \<Rightarrow> None)"

text \<open>
  \<open>saveShipmentToDatabase\<close>: \<open>pool.getConnection\<close> throws when the pool hands out no
  connection, and \<open>connection.execute\<close>, the prepared-statement call of the driver, throws
  before it sends anything when one of its bind parameters is \<open>undefined\<close>; the function
  logs either error and throws it again. Of the seven parameters the identifier, the
  destination, the currency and the document URL are always defined. The supplier name
  and the policy id are \<open>undefined\<close> when the field is absent (\<open>None\<close>); both callers have
  tested them for truthiness before the call. The amount is passed as the response
  has it.
\<close>

definition bindable :: "string option \<Rightarrow> covrzyResponse \<Rightarrow> bool" where
  "bindable supplierName response =
     (supplierName \<noteq> None \<and> policyId response \<noteq> None \<and> amount response \<noteq> Undefined)"

definition saveShipmentToDatabase ::
  "world \<Rightarrow> string \<Rightarrow> string option \<Rightarrow> string \<Rightarrow> covrzyResponse \<Rightarrow> state \<Rightarrow> failure + state" where
  "saveShipmentToDatabase w awbNo supplierName destinationCountry response st =
     (if \<not> dbAvailable w then Inl DatabaseFailed
      else if \<not> bindable supplierName response then Inl UndefinedBindParameter
      else Inr (st\<lparr>coverzy_shipments :=
             upsertRow \<lparr>shipment_id = awbNo, supplier_name = supplierName,
                        destination_country = destinationCountry,
                        policy_id = policyId response,
                        row_amount = sqlValue (amount response),
                        row_currency = ''INR'', view_pdf = None\<rparr>
               (coverzy_shipments st)\<rparr>))"

section \<open>Validator\<close>

text \<open>\<open>customerDetails ? customerDetails[0] : {}\<close>: a failed lookup gives a record without fields.\<close>

definition noCustomerInfo :: customerInfo where
  "noCustomerInfo = \<lparr>name = None, last_name = None, company_name = None, email = None\<rparr>"

definition customerInfoOf :: "(customerInfo \<times> address list) option \<Rightarrow> customerInfo" where
  "customerInfoOf customerDetails =
     (case customerDetails of Some (info, _) \<Rightarrow> info | None \<Rightarrow> noCustomerInfo)"

text \<open>
  \<open>validateShipmentOnly\<close> of \<open>backend/cron/coverzyCron.js\<close>: each failed rule throws, the
  function's own \<open>catch\<close> turns the throw into an invalid verdict.
\<close>

definition validateShipmentOnly_A :: "world \<Rightarrow> string \<Rightarrow> settings \<Rightarrow> failure + validationResult" where
  "validateShipmentOnly_A w awbNo s =
     (case getShipmentDetails w awbNo of
        None \<Rightarrow> Inl LookupFailed
      | Some sd \<Rightarrow>
          if \<not> isDestinationAllowed (Destination_Country sd) (countries s)
          then Inl DestinationNotAllowed
          else if \<not> isPickupTimeValid_A (Create_Pick_Up_Date sd) (cutoffTime s) (cipTime s)
          then Inl PickupTimeOutOfWindow
          else
            (let customerInfo = customerInfoOf (getCustomerDetails w (Customer_ID sd))
             in if \<not> isSupplierAllowed (company_name customerInfo) (suppliers s)
                then Inl SupplierNotAllowed
                else Inr \<lparr>vAwb = awbNo, vShipmentDetails = sd, vCustomerInfo = customerInfo\<rparr>))"

text \<open>
  \<open>validateShipmentOnly\<close> of the second generation (\<open>unnamed/part_003\<close>). What follows the
  supplier rule there only computes values for the console and cannot throw, since the
  service rule has already found the carrier.
\<close>

definition validateShipmentOnly_B :: "world \<Rightarrow> string \<Rightarrow> settings \<Rightarrow> failure + validationResult" where
  "validateShipmentOnly_B w awbNo s =
     (case getShipmentDetails w awbNo of
        None \<Rightarrow> Inl LookupFailed
      | Some sd \<Rightarrow>
          if \<not> isDestinationAllowed (Destination_Country sd) (countries s)
          then Inl DestinationNotAllowed
          else if \<not> isServiceDestinationValid (Destination_Country sd) (Service_Type sd)
          then Inl ServiceUnsupported
          else if \<not> isPickupTimeValid_B (Create_Pick_Up_Date sd) (cutoffTime s) (cipTime s)
          then Inl PickupTimeOutOfWindow
          else if \<not> isShipmentValueValid (Package_Value sd) (minShipmentValueUsd s) (usdToInrRate s)
          then Inl ValueBelowThreshold
          else
            (let customerInfo = customerInfoOf (getCustomerDetails w (Customer_ID sd))
             in if \<not> isSupplierAllowed (company_name customerInfo) (suppliers s)
                then Inl SupplierNotAllowed
                else Inr \<lparr>vAwb = awbNo, vShipmentDetails = sd, vCustomerInfo = customerInfo\<rparr>))"

section \<open>Payload mapping and submission (first generation)\<close>

text \<open>\<open>x || d\<close> on an optional string: \<open>undefined\<close>, \<open>null\<close> and the empty string give \<open>d\<close>.\<close>

definition orElse :: "string option \<Rightarrow> string \<Rightarrow> string" where
  "orElse x d = (case x of None \<Rightarrow> d | Some v \<Rightarrow> if v = [] then d else v)"

definition isSpace :: "char \<Rightarrow> bool" where
  "isSpace c = (let n = (of_char c :: nat) in n = 32 \<or> (9 \<le> n \<and> n \<le> 13))"

definition trim :: "string \<Rightarrow> string" where
  "trim s = rev (dropWhile isSpace (rev (dropWhile isSpace s)))"

definition mapShipmentDetailsToPayload :: "world \<Rightarrow> shipmentDetails \<Rightarrow> payload" where
  "mapShipmentDetailsToPayload w sd =
     (let customerDetails = getCustomerDetails w (Customer_ID sd);
          customerInfo = customerInfoOf customerDetails;
          customerAddresses = (case customerDetails of Some (_, as) \<Rightarrow> as | None \<Rightarrow> []);
          registeredAddress = find (\<lambda>addr. label addr = ''Registered Address'') customerAddresses
      in \<lparr>transportMode = ''air'',
          shipment_awb = Name sd,
          departureDate = Create_Pick_Up_Date sd,
          origin = ''IN'',
          destination = Destination_Country sd,
          eta = Create_Pick_Up_Date sd,
          carrierCode = ''FX'',
          amount = Package_Value sd,
          currency = ''INR'',
          goods_description = Description sd,
          customerName =
            trim (orElse (name customerInfo) [] @ '' '' @ orElse (last_name customerInfo) []),
          customerCountry =
            orElse (case registeredAddress of Some a \<Rightarrow> country_code a | None \<Rightarrow> None) ''IN'',
          customerEmail = orElse (email customerInfo) []\<rparr>)"

text \<open>\<open>sendToCovrzyAPI\<close>: the call is made whatever its outcome; a network or HTTP error throws.\<close>

definition sendToCovrzyAPI :: "world \<Rightarrow> payload \<Rightarrow> state \<Rightarrow> (failure + covrzyResponse) \<times> state" where
  "sendToCovrzyAPI w p st =
     (case covrzyApi w p of
        None \<Rightarrow> Inl CovrzyApiFailed
      | Some response \<Rightarrow> Inr response,
      st\<lparr>covrzyCalls := covrzyCalls st @ [p]\<rparr>)"

text \<open>\<open>coverzyResponse.status === 'success' && coverzyResponse.policyId\<close>.\<close>

definition responseSuccessful :: "covrzyResponse \<Rightarrow> bool" where
  "responseSuccessful r =
     (status r = Some ''success'' \<and> (case policyId r of None \<Rightarrow> False | Some p \<Rightarrow> p \<noteq> []))"

definition processValidatedShipment ::
  "world \<Rightarrow> validationResult \<Rightarrow> settings \<Rightarrow> state \<Rightarrow> (failure + processResult) \<times> state" where
  "processValidatedShipment w v s st =
     (let p = mapShipmentDetailsToPayload w (vShipmentDetails v)
      in case sendToCovrzyAPI w p st of
           (Inl e, st1) \<Rightarrow> (Inl e, st1)
         | (Inr response, st1) \<Rightarrow>
             if responseSuccessful response
             then (case saveShipmentToDatabase w (vAwb v) (company_name (vCustomerInfo v))
                          (Destination_Country (vShipmentDetails v)) response st1 of
                     Inl e \<Rightarrow> (Inl e, st1)
                   | Inr st2 \<Rightarrow>
                       (Inr \<lparr>coverzyResponse = response, savedToDatabase = True, error = None\<rparr>, st2))
             else (Inr \<lparr>coverzyResponse = response, savedToDatabase = False,
                        error = Some ''Coverzy API response not successful''\<rparr>, st1))"

text \<open>
  \<open>processShipment\<close>, the single-pass path: the same three rules, written out again in
  the source, then mapping, submission and saving. Every throw leaves the function.
\<close>

definition processShipment ::
  "world \<Rightarrow> string \<Rightarrow> settings \<Rightarrow> state \<Rightarrow> (failure + processResult) \<times> state" where
  "processShipment w awbNo s st =
     (case getShipmentDetails w awbNo of
        None \<Rightarrow> (Inl LookupFailed, st)
      | Some sd \<Rightarrow>
          if \<not> isDestinationAllowed (Destination_Country sd) (countries s)
          then (Inl DestinationNotAllowed, st)
          else if \<not> isPickupTimeValid_A (Create_Pick_Up_Date sd) (cutoffTime s) (cipTime s)
          then (Inl PickupTimeOutOfWindow, st)
          else
            (let customerInfo = customerInfoOf (getCustomerDetails w (Customer_ID sd))
             in if \<not> isSupplierAllowed (company_name customerInfo) (suppliers s)
                then (Inl SupplierNotAllowed, st)
                else
                  (let p = mapShipmentDetailsToPayload w sd
                   in case sendToCovrzyAPI w p st of
                        (Inl e, st1) \<Rightarrow> (Inl e, st1)
                      | (Inr response, st1) \<Rightarrow>
                          if responseSuccessful response
                          then (case saveShipmentToDatabase w awbNo (company_name customerInfo)
                                       (Destination_Country sd) response st1 of
                                  Inl e \<Rightarrow> (Inl e, st1)
                                | Inr st2 \<Rightarrow>
                                    (Inr \<lparr>coverzyResponse = response, savedToDatabase = True,
                                          error = None\<rparr>, st2))
                          else (Inr \<lparr>coverzyResponse = response, savedToDatabase = False,
                                     error = Some ''Coverzy API response not successful''\<rparr>, st1))))"

section \<open>Orchestrator (first generation)\<close>

text \<open>
  \<open>xs.slice(0, n)\<close> for an integer \<open>n\<close>: a negative end counts from the end of the array.
\<close>

definition slice0 :: "'a list \<Rightarrow> int \<Rightarrow> 'a list" where
  "slice0 xs n = (if n < 0 then take (nat (int (length xs) + n)) xs else take (nat n) xs)"

record runResult =
  results :: "(string \<times> processResult) list"
  errors :: "(string \<times> failure) list"
  total :: nat
  processed :: "nat option"
  validFound :: "nat option"
  date :: "string option"

text \<open>First pass of the scheduled run: one verdict for every listed identifier.\<close>

fun validationLoop ::
  "world \<Rightarrow> settings \<Rightarrow> string list \<Rightarrow> validationResult list \<Rightarrow> (string \<times> failure) list
     \<Rightarrow> validationResult list \<times> (string \<times> failure) list" where
  "validationLoop w s [] validShipments invalidShipments = (validShipments, invalidShipments)"
| "validationLoop w s (a # rest) validShipments invalidShipments =
     (case validateShipmentOnly_A w a s of
        Inr v \<Rightarrow> validationLoop w s rest (validShipments @ [v]) invalidShipments
      | Inl e \<Rightarrow> validationLoop w s rest validShipments (invalidShipments @ [(a, e)]))"

text \<open>Second pass: every entry is processed once; a throw is collected and the loop goes on.\<close>

fun processingLoop ::
  "world \<Rightarrow> settings \<Rightarrow> validationResult list \<Rightarrow> state \<Rightarrow> (string \<times> processResult) list
     \<Rightarrow> (string \<times> failure) list
     \<Rightarrow> state \<times> (string \<times> processResult) list \<times> (string \<times> failure) list" where
  "processingLoop w s [] st res processingErrors = (st, res, processingErrors)"
| "processingLoop w s (v # rest) st res processingErrors =
     (case processValidatedShipment w v s st of
        (Inr r, st1) \<Rightarrow> processingLoop w s rest st1 (res @ [(vAwb v, r)]) processingErrors
      | (Inl e, st1) \<Rightarrow> processingLoop w s rest st1 res (processingErrors @ [(vAwb v, e)]))"

definition successRate :: "nat \<Rightarrow> nat \<Rightarrow> rat" where
  "successRate succeeded toProcess =
     (if toProcess > 0 then (of_nat succeeded / of_nat toProcess) * 100 else 0)"

text \<open>The outer \<open>catch\<close> of the scheduled run: log, alert, throw again.\<close>

definition cronFailure :: "world \<Rightarrow> failure \<Rightarrow> state \<Rightarrow> (failure + runResult) \<times> state" where
  "cronFailure w e st =
     (Inl e,
      sendCronErrorEmail ''cron_failure''
        (logErrorToDatabase w
           \<lparr>jobName = ''coverzy_daily_shipments'', errorType = ''cron_failure''\<rparr> st))"

definition processPreviousDayShipments :: "world \<Rightarrow> state \<Rightarrow> (failure + runResult) \<times> state" where
  "processPreviousDayShipments w st =
     (case getCoverzySettings w st of
        (None, st1) \<Rightarrow> cronFailure w SettingsMissing st1
      | (Some s, st1) \<Rightarrow>
          (case dailyShipments w (yesterdayDate w) of
             None \<Rightarrow>
               cronFailure w ListingFailed
                 (sendCronErrorEmail ''api_error''
                    (logErrorToDatabase w
                       \<lparr>jobName = ''coverzy_daily_shipments'', errorType = ''api_error''\<rparr> st1))
           | Some awbNumbers \<Rightarrow>
               if awbNumbers = []
               then (Inr \<lparr>results = [], errors = [], total = 0, processed = None,
                          validFound = None, date = Some (yesterdayDate w)\<rparr>, st1)
               else
                 (case validationLoop w s awbNumbers [] [] of
                    (validShipments, invalidShipments) \<Rightarrow>
                      if validShipments = []
                      then (Inr \<lparr>results = [], errors = invalidShipments,
                                 total = length awbNumbers, processed = Some 0,
                                 validFound = Some 0, date = Some (yesterdayDate w)\<rparr>, st1)
                      else
                        (let shipmentsToProcess = slice0 validShipments (maxShipments s)
                         in case processingLoop w s shipmentsToProcess st1 [] [] of
                              (st2, res, processingErrors) \<Rightarrow>
                                (let allErrors = invalidShipments @ processingErrors;
                                     rate = successRate (length res) (length shipmentsToProcess);
                                     st3 =
                                       (if rate \<ge> 80
                                        then sendDailySummaryEmail
                                          \<lparr>stat_totalShipments = length awbNumbers,
                                           stat_validShipments = length validShipments,
                                           stat_processedShipments = length shipmentsToProcess,
                                           stat_successfulShipments = length res,
                                           stat_failedValidation = length invalidShipments,
                                           stat_failedProcessing = length processingErrors\<rparr> st2
                                        else st2)
                                 in (Inr \<lparr>results = res, errors = allErrors,
                                          total = length awbNumbers,
                                          processed = Some (length shipmentsToProcess),
                                          validFound = Some (length validShipments),
                                          date = Some (yesterdayDate w)\<rparr>, st3))))))"

text \<open>The single-date entry point: the cap is taken on the listing, then one pass.\<close>

fun singlePassLoop ::
  "world \<Rightarrow> settings \<Rightarrow> string list \<Rightarrow> state \<Rightarrow> (string \<times> processResult) list
     \<Rightarrow> (string \<times> failure) list
     \<Rightarrow> state \<times> (string \<times> processResult) list \<times> (string \<times> failure) list" where
  "singlePassLoop w s [] st res errs = (st, res, errs)"
| "singlePassLoop w s (a # rest) st res errs =
     (case processShipment w a s st of
        (Inr r, st1) \<Rightarrow> singlePassLoop w s rest st1 (res @ [(a, r)]) errs
      | (Inl e, st1) \<Rightarrow> singlePassLoop w s rest st1 res (errs @ [(a, e)]))"

definition processShipmentsForDate ::
  "world \<Rightarrow> string \<Rightarrow> state \<Rightarrow> (failure + runResult) \<times> state" where
  "processShipmentsForDate w d st =
     (case getCoverzySettings w st of
        (None, st1) \<Rightarrow> (Inl SettingsMissing, st1)
      | (Some s, st1) \<Rightarrow>
          (case dailyShipments w d of
             None \<Rightarrow> (Inl ListingFailed, st1)
           | Some awbNumbers \<Rightarrow>
               if awbNumbers = []
               then (Inr \<lparr>results = [], errors = [], total = 0, processed = Some 0,
                          validFound = None, date = None\<rparr>, st1)
               else
                 (let limitedAwbNumbers = slice0 awbNumbers (maxShipments s)
                  in case singlePassLoop w s limitedAwbNumbers st1 [] [] of
                       (st2, res, errs) \<Rightarrow>
                         (Inr \<lparr>results = res, errors = errs, total = length awbNumbers,
                               processed = Some (length limitedAwbNumbers),
                               validFound = None, date = None\<rparr>, st2))))"

section \<open>Notions used to state the properties\<close>

text \<open>
  A clock time \<open>HH:MM:SS\<close> written with two digits per field, as the time columns of the
  settings and the pickup timestamps of the platform are, and the minutes since
  midnight it stands for.
\<close>

definition digitChar :: "nat \<Rightarrow> char" where
  "digitChar d = char_of (48 + d)"

definition twoDigits :: "nat \<Rightarrow> string" where
  "twoDigits n = [digitChar (n div 10 mod 10), digitChar (n mod 10)]"

definition clock :: "nat \<Rightarrow> nat \<Rightarrow> nat \<Rightarrow> string" where
  "clock h m s = twoDigits h @ '':'' @ twoDigits m @ '':'' @ twoDigits s"

definition minutesOfDay :: "nat \<Rightarrow> nat \<Rightarrow> int" where
  "minutesOfDay h m = int h * 60 + int m"

text \<open>
  The window in the words of the specification: closed at both ends; when the cutoff
  lies after the CIP time the window runs through midnight and holds what is at or
  after the cutoff together with what is at or before the CIP time.
\<close>

definition withinWindow :: "int \<Rightarrow> int \<Rightarrow> int \<Rightarrow> bool" where
  "withinWindow cutoff cip pickup =
     (if cutoff \<le> cip then cutoff \<le> pickup \<and> pickup \<le> cip
      else cutoff \<le> pickup \<or> pickup \<le> cip)"

text \<open>
  The rules of the specification as an ordered list of outcomes, and the first failed
  one. Each entry pairs the verdict of a rule with the reason reported when it fails.
\<close>

definition firstFailure :: "(bool \<times> failure) list \<Rightarrow> failure option" where
  "firstFailure rules = map_option snd (find (\<lambda>r. \<not> fst r) rules)"

definition rules_A :: "shipmentDetails \<Rightarrow> customerInfo \<Rightarrow> settings \<Rightarrow> (bool \<times> failure) list" where
  "rules_A sd ci s =
     [(isDestinationAllowed (Destination_Country sd) (countries s), DestinationNotAllowed),
      (isPickupTimeValid_A (Create_Pick_Up_Date sd) (cutoffTime s) (cipTime s), PickupTimeOutOfWindow),
      (isSupplierAllowed (company_name ci) (suppliers s), SupplierNotAllowed)]"

definition rules_B :: "shipmentDetails \<Rightarrow> customerInfo \<Rightarrow> settings \<Rightarrow> (bool \<times> failure) list" where
  "rules_B sd ci s =
     [(isDestinationAllowed (Destination_Country sd) (countries s), DestinationNotAllowed),
      (isServiceDestinationValid (Destination_Country sd) (Service_Type sd), ServiceUnsupported),
      (isPickupTimeValid_B (Create_Pick_Up_Date sd) (cutoffTime s) (cipTime s), PickupTimeOutOfWindow),
      (isShipmentValueValid (Package_Value sd) (minShipmentValueUsd s) (usdToInrRate s),
         ValueBelowThreshold),
      (isSupplierAllowed (company_name ci) (suppliers s), SupplierNotAllowed)]"

text \<open>
  The valid list and the invalid list of a listing, in listing order, and the payload
  submitted for a validated shipment.
\<close>

definition validVerdicts :: "world \<Rightarrow> settings \<Rightarrow> string list \<Rightarrow> validationResult list" where
  "validVerdicts w s as =
     List.map_filter
       (\<lambda>a. case validateShipmentOnly_A w a s of Inr v \<Rightarrow> Some v | Inl _ \<Rightarrow> None) as"

definition invalidVerdicts :: "world \<Rightarrow> settings \<Rightarrow> string list \<Rightarrow> (string \<times> failure) list" where
  "invalidVerdicts w s as =
     List.map_filter
       (\<lambda>a. case validateShipmentOnly_A w a s of Inl e \<Rightarrow> Some (a, e) | Inr _ \<Rightarrow> None) as"

definition isValidAwb :: "world \<Rightarrow> settings \<Rightarrow> string \<Rightarrow> bool" where
  "isValidAwb w s a = (case validateShipmentOnly_A w a s of Inr _ \<Rightarrow> True | Inl _ \<Rightarrow> False)"

definition payloadOf :: "world \<Rightarrow> validationResult \<Rightarrow> payload" where
  "payloadOf w v = mapShipmentDetailsToPayload w (vShipmentDetails v)"

definition rowOf :: "string \<Rightarrow> string option \<Rightarrow> string \<Rightarrow> covrzyResponse \<Rightarrow> shipmentRow" where
  "rowOf awbNo supplierName destinationCountry response =
     \<lparr>shipment_id = awbNo, supplier_name = supplierName,
      destination_country = destinationCountry, policy_id = policyId response,
      row_amount = sqlValue (amount response), row_currency = ''INR'', view_pdf = None\<rparr>"

section \<open>Example data of the end-to-end scenarios\<close>

text \<open>
  The settings and shipments of the scenarios of the specification, with two more
  shipments: one that only the supplier rule rejects and one whose declared value of
  1000 at a rate of 83 stays below the threshold of 20.
\<close>

definition exampleSettings :: settings where
  "exampleSettings =
     \<lparr>suppliers = [''ACME''], countries = [''US'', ''GB''], maxShipments = 2,
      cutoffTime = Some ''19:00:00'', cipTime = Some ''23:30:00'',
      minShipmentValueUsd = Num 20, usdToInrRate = Num 83\<rparr>"

definition exampleSettings_B :: settings where
  "exampleSettings_B = exampleSettings\<lparr>cutoffTime := Some ''23:00:00''\<rparr>"

definition exampleShipment ::
  "string \<Rightarrow> string \<Rightarrow> string \<Rightarrow> string \<Rightarrow> rat \<Rightarrow> string \<Rightarrow> shipmentDetails" where
  "exampleShipment n dest service pickup v customer =
     \<lparr>Name = n, Destination_Country = dest, Service_Type = service,
      Create_Pick_Up_Date = Some pickup, Package_Value = Num v, Description = ''gemstones'',
      Customer_ID = customer\<rparr>"

definition exampleShipments :: "string \<Rightarrow> shipmentDetails option" where
  "exampleShipments a =
     (if a = ''AWB1'' then Some (exampleShipment a ''US'' ''Ship+'' ''2024-03-10 20:00:00'' 5000 ''C1'')
      else if a = ''AWB2'' then Some (exampleShipment a ''FR'' ''Express'' ''2024-03-10 20:00:00'' 1000 ''C2'')
      else if a = ''AWB3'' then Some (exampleShipment a ''GB'' ''ShipD'' ''2024-03-10 21:00:00'' 5000 ''C3'')
      else if a = ''AWB4'' then Some (exampleShipment a ''US'' ''Ship+'' ''2024-03-10 20:00:00'' 5000 ''C2'')
      else if a = ''AWB5'' then Some (exampleShipment a ''US'' ''Ship+'' ''2024-03-10 20:00:00'' 1000 ''C1'')
      else None)"

definition exampleCustomers :: "string \<Rightarrow> (customerInfo \<times> address list) option" where
  "exampleCustomers c =
     (if c = ''C1''
      then Some (\<lparr>name = Some ''Asha'', last_name = Some ''Rao'', company_name = Some ''ACME Corp'',
                  email = Some ''asha@acme.example''\<rparr>,
                 [\<lparr>label = ''Registered Address'', country_code = Some ''IN''\<rparr>])
      else if c = ''C2''
      then Some (\<lparr>name = Some ''Ravi'', last_name = None, company_name = Some ''Other Traders'',
                  email = None\<rparr>, [])
      else if c = ''C3''
      then Some (\<lparr>name = None, last_name = None, company_name = Some ''Acme'', email = None\<rparr>, [])
      else None)"

definition exampleWorld :: world where
  "exampleWorld =
     \<lparr>dbAvailable = True,
      settingsRow = Some exampleSettings,
      dailyShipments = (\<lambda>d. Some [''AWB1'', ''AWB2'', ''AWB3'']),
      getShipmentDetails = exampleShipments,
      getCustomerDetails = exampleCustomers,
      covrzyApi = (\<lambda>p. Some \<lparr>status = Some ''success'', policyId = Some (''POL-'' @ shipment_awb p),
                                amount = Value 250\<rparr>),
      yesterdayDate = ''09-03-2024''\<rparr>"

text \<open>The verdict of the validator on AWB1, the first shipment of the scenarios.\<close>

definition exampleVerdict :: validationResult where
  "exampleVerdict =
     \<lparr>vAwb = ''AWB1'',
      vShipmentDetails = exampleShipment ''AWB1'' ''US'' ''Ship+'' ''2024-03-10 20:00:00'' 5000 ''C1'',
      vCustomerInfo =
        \<lparr>name = Some ''Asha'', last_name = Some ''Rao'', company_name = Some ''ACME Corp'',
         email = Some ''asha@acme.example''\<rparr>\<rparr>"

definition emptyState :: state where
  "emptyState = \<lparr>coverzy_shipments = [], cron_error_logs = [], covrzyCalls = [], emails = []\<rparr>"

text \<open>The example world with another listing and another cap.\<close>

definition cappedSettings :: "int \<Rightarrow> settings" where
  "cappedSettings n = exampleSettings\<lparr>maxShipments := n\<rparr>"

text \<open>
  The example world with a partner that answers the submission of AWB1 with a success
  status and an empty policy id, and every other submission as before.
\<close>

definition decliningWorld :: world where
  "decliningWorld =
     exampleWorld\<lparr>covrzyApi :=
       (\<lambda>p. if shipment_awb p = ''AWB1''
            then Some \<lparr>status = Some ''success'', policyId = Some [], amount = Undefined\<rparr>
            else Some \<lparr>status = Some ''success'', policyId = Some (''POL-'' @ shipment_awb p),
                       amount = Value 250\<rparr>)\<rparr>"

text \<open>The example world while the connection pool hands out no connection.\<close>

definition offlineWorld :: world where
  "offlineWorld = exampleWorld\<lparr>dbAvailable := False\<rparr>"

text \<open>
  The example world with a partner whose answers carry the success status and a
  policy id, and no amount.
\<close>

definition amountlessWorld :: world where
  "amountlessWorld =
     exampleWorld\<lparr>covrzyApi :=
       (\<lambda>p. Some \<lparr>status = Some ''success'', policyId = Some (''POL-'' @ shipment_awb p),
                   amount = Undefined\<rparr>)\<rparr>"

definition worldWith :: "string list \<Rightarrow> int \<Rightarrow> world" where
  "worldWith listing n =
     exampleWorld\<lparr>settingsRow := Some (cappedSettings n), dailyShipments := (\<lambda>d. Some listing)\<rparr>"

section \<open>Parsing clock times\<close>

lemma splitOn_no_sep: "c \<notin> set xs \<Longrightarrow> splitOn c xs = [xs]"
  by (induction xs) auto

lemma splitOn_append: "c \<notin> set xs \<Longrightarrow> splitOn c (xs @ c # ys) = xs # splitOn c ys"
  by (induction xs) auto

lemma of_char_digitChar: "d < 10 \<Longrightarrow> (of_char (digitChar d) :: nat) = 48 + d"
  by (simp add: digitChar_def)

lemma isDigit_digitChar: "d < 10 \<Longrightarrow> isDigit (digitChar d)"
  by (simp add: isDigit_def of_char_digitChar)

lemma isDigit_not_colon: "isDigit c \<Longrightarrow> c \<noteq> CHR '':''"
  by (auto simp: isDigit_def)

lemma isDigit_not_space: "isDigit c \<Longrightarrow> c \<noteq> CHR '' ''"
  by (auto simp: isDigit_def)

lemma digitChar_not_sep:
  "d < 10 \<Longrightarrow> CHR '':'' \<noteq> digitChar d" "d < 10 \<Longrightarrow> CHR '' '' \<noteq> digitChar d"
  by (metis isDigit_digitChar isDigit_not_colon, metis isDigit_digitChar isDigit_not_space)

lemma twoDigits_digits: "list_all isDigit (twoDigits n)"
  by (simp add: twoDigits_def isDigit_digitChar)

lemma Number_twoDigits:
  assumes "n < 100"
  shows "Number (twoDigits n) = Some (int n)"
proof -
  have "decimalValue (twoDigits n) = 10 * (n div 10 mod 10) + n mod 10"
    by (simp add: decimalValue_def twoDigits_def of_char_digitChar)
  also have "\<dots> = 10 * (n div 10) + n mod 10" using assms by simp
  also have "\<dots> = n" by simp
  finally show ?thesis by (simp add: Number_def twoDigits_digits)
qed

lemma twoDigits_no_colon: "CHR '':'' \<notin> set (twoDigits n)"
  by (simp add: twoDigits_def digitChar_not_sep)

lemma clock_no_space: "CHR '' '' \<notin> set (clock h m s)"
  by (simp add: clock_def twoDigits_def digitChar_not_sep)

lemma timeToMinutes_clock:
  assumes "h < 100" "m < 100" "s < 100"
  shows "timeToMinutes (clock h m s) = Some (minutesOfDay h m)"
proof -
  have "splitOn CHR '':'' (clock h m s) = [twoDigits h, twoDigits m, twoDigits s]"
    using splitOn_append [OF twoDigits_no_colon] splitOn_no_sep [OF twoDigits_no_colon]
    by (simp add: clock_def)
  then show ?thesis
    using assms by (simp add: timeToMinutes_def Number_twoDigits minutesOfDay_def)
qed

lemma pickupTimeStr_dated:
  assumes "CHR '' '' \<notin> set d"
  shows "pickupTimeStr (d @ '' '' @ clock h m s) = clock h m s"
proof -
  have "splitOn CHR '' '' (d @ '' '' @ clock h m s) = [d, clock h m s]"
    using splitOn_append [OF assms] splitOn_no_sep [OF clock_no_space] by simp
  moreover have "clock h m s \<noteq> []" by (simp add: clock_def twoDigits_def)
  ultimately show ?thesis by (simp add: pickupTimeStr_def)
qed

lemma pickupTimeStr_bare: "pickupTimeStr (clock h m s) = clock h m s"
  using splitOn_no_sep [OF clock_no_space] by (simp add: pickupTimeStr_def)

lemma pickup_minutes:
  assumes "ph < 24" "pm < 60" "ps < 60"
    and "pickup = clock ph pm ps \<or> (CHR '' '' \<notin> set d \<and> pickup = d @ '' '' @ clock ph pm ps)"
  shows "timeToMinutes (pickupTimeStr pickup) = Some (minutesOfDay ph pm)"
proof -
  have "pickupTimeStr pickup = clock ph pm ps"
  proof (cases "pickup = clock ph pm ps")
    case True
    then show ?thesis by (simp only: pickupTimeStr_bare)
  next
    case False
    with assms(4) have "CHR '' '' \<notin> set d" and "pickup = d @ '' '' @ clock ph pm ps"
      by simp_all
    then show ?thesis using pickupTimeStr_dated [of d ph pm ps] by simp
  qed
  then show ?thesis
    using assms(1-3) by (simp add: timeToMinutes_clock)
qed

text \<open>
  For times of day the window of the specification is the arc of the clock face that
  starts at the cutoff and ends at the CIP time.
\<close>

lemma mod_day:
  fixes x :: int
  assumes "- 1440 \<le> x" "x < 1440"
  shows "x mod 1440 = (if 0 \<le> x then x else x + 1440)"
proof (cases "0 \<le> x")
  case True
  then show ?thesis using assms by simp
next
  case False
  have "x mod 1440 = (x + 1440) mod 1440" by simp
  also have "\<dots> = x + 1440"
    using assms False by (intro mod_pos_pos_trivial) simp_all
  finally show ?thesis using False by simp
qed

lemma withinWindow_clockwise:
  assumes "0 \<le> c" "c < 1440" "0 \<le> q" "q < 1440" "0 \<le> p" "p < 1440"
  shows "withinWindow c q p = ((p - c) mod 1440 \<le> (q - c) mod 1440)"
proof -
  have "(p - c) mod 1440 = (if c \<le> p then p - c else p - c + 1440)"
    using assms mod_day [of "p - c"] by simp
  moreover have "(q - c) mod 1440 = (if c \<le> q then q - c else q - c + 1440)"
    using assms mod_day [of "q - c"] by simp
  ultimately show ?thesis
    using assms by (simp add: withinWindow_def)
qed

section \<open>Properties of the pickup-time rules\<close>

text \<open>
  Claim C1. In the window generation, for every pickup, cutoff and CIP time of day the
  rule accepts the pickup exactly when its hour and minute lie in the window from the
  cutoff to the CIP time, both ends included; when the cutoff is later in the day than
  the CIP time the window runs through midnight. The pickup may come as a bare time or
  behind a date, and the seconds of all three times play no part.
\<close>

theorem pickup_window_classification:
  assumes "ph < 24" "pm < 60" "ps < 60" "ch < 24" "cm < 60" "cs < 60" "qh < 24" "qm < 60" "qs < 60"
    and "pickup = clock ph pm ps \<or> (CHR '' '' \<notin> set d \<and> pickup = d @ '' '' @ clock ph pm ps)"
  shows "isPickupTimeValid_A (Some pickup) (Some (clock ch cm cs)) (Some (clock qh qm qs)) =
           withinWindow (minutesOfDay ch cm) (minutesOfDay qh qm) (minutesOfDay ph pm)"
proof -
  have p: "timeToMinutes (pickupTimeStr pickup) = Some (minutesOfDay ph pm)"
    using assms by (intro pickup_minutes) auto
  have c: "timeToMinutes (clock ch cm cs) = Some (minutesOfDay ch cm)"
    using assms by (intro timeToMinutes_clock) auto
  have q: "timeToMinutes (clock qh qm qs) = Some (minutesOfDay qh qm)"
    using assms by (intro timeToMinutes_clock) auto
  show ?thesis
    by (simp add: isPickupTimeValid_A_def p c q numLe_def numGe_def withinWindow_def)
qed

theorem pickup_window_classification_witness:
  "isPickupTimeValid_A (Some ''2024-03-10 23:30:00'') (Some ''23:00:00'') (Some ''02:00:00'')
   \<and> isPickupTimeValid_A (Some ''01:00:00'') (Some ''23:00:00'') (Some ''02:00:00'')
   \<and> \<not> isPickupTimeValid_A (Some ''2024-03-10 12:00:00'') (Some ''23:00:00'') (Some ''02:00:00'')
   \<and> isPickupTimeValid_A (Some ''2024-03-10 19:00:00'') (Some ''19:00:00'') (Some ''23:30:00'')
   \<and> isPickupTimeValid_A (Some ''2024-03-10 23:30:59'') (Some ''19:00:00'') (Some ''23:30:00'')
   \<and> \<not> isPickupTimeValid_A (Some ''2024-03-10 18:59:59'') (Some ''19:00:00'') (Some ''23:30:00'')"
proof -
  have t: "clock 23 30 0 = ''23:30:00''" "clock 1 0 0 = ''01:00:00''" "clock 12 0 0 = ''12:00:00''"
    "clock 23 0 0 = ''23:00:00''" "clock 2 0 0 = ''02:00:00''" "clock 19 0 0 = ''19:00:00''"
    "clock 23 30 59 = ''23:30:59''" "clock 18 59 59 = ''18:59:59''"
    "clock (Suc 0) 0 0 = ''01:00:00''"
    by code_simp+
  have d: "CHR '' '' \<notin> set ''2024-03-10''" by simp
  have "isPickupTimeValid_A (Some (''2024-03-10'' @ '' '' @ clock 23 30 0)) (Some (clock 23 0 0))
          (Some (clock 2 0 0))"
    using pickup_window_classification [of 23 30 0 23 0 0 2 0 0 _ "''2024-03-10''"] d
    by (simp add: withinWindow_def minutesOfDay_def)
  moreover have "isPickupTimeValid_A (Some (clock 1 0 0)) (Some (clock 23 0 0)) (Some (clock 2 0 0))"
    using pickup_window_classification [of 1 0 0 23 0 0 2 0 0 "clock 1 0 0" "[]"]
    by (simp add: withinWindow_def minutesOfDay_def)
  moreover have "\<not> isPickupTimeValid_A (Some (''2024-03-10'' @ '' '' @ clock 12 0 0))
          (Some (clock 23 0 0)) (Some (clock 2 0 0))"
    using pickup_window_classification [of 12 0 0 23 0 0 2 0 0 _ "''2024-03-10''"] d
    by (simp add: withinWindow_def minutesOfDay_def)
  moreover have "isPickupTimeValid_A (Some (''2024-03-10'' @ '' '' @ clock 19 0 0))
          (Some (clock 19 0 0)) (Some (clock 23 30 0))"
    using pickup_window_classification [of 19 0 0 19 0 0 23 30 0 _ "''2024-03-10''"] d
    by (simp add: withinWindow_def minutesOfDay_def)
  moreover have "isPickupTimeValid_A (Some (''2024-03-10'' @ '' '' @ clock 23 30 59))
          (Some (clock 19 0 0)) (Some (clock 23 30 0))"
    using pickup_window_classification [of 23 30 59 19 0 0 23 30 0 _ "''2024-03-10''"] d
    by (simp add: withinWindow_def minutesOfDay_def)
  moreover have "\<not> isPickupTimeValid_A (Some (''2024-03-10'' @ '' '' @ clock 18 59 59))
          (Some (clock 19 0 0)) (Some (clock 23 30 0))"
    using pickup_window_classification [of 18 59 59 19 0 0 23 30 0 _ "''2024-03-10''"] d
    by (simp add: withinWindow_def minutesOfDay_def)
  ultimately show ?thesis by (simp add: t)
qed

text \<open>
  Claim C7. In the cutoff-only generation the rule accepts the pickup exactly when its
  hour and minute, as minutes since midnight, are strictly below those of the cutoff;
  the seconds of either time play no part and the CIP time is not consulted.
\<close>

theorem pickup_before_cutoff:
  assumes "ph < 24" "pm < 60" "ps < 60" "ch < 24" "cm < 60" "cs < 60"
    and "pickup = clock ph pm ps \<or> (CHR '' '' \<notin> set d \<and> pickup = d @ '' '' @ clock ph pm ps)"
  shows "isPickupTimeValid_B (Some pickup) (Some (clock ch cm cs)) cip =
           (minutesOfDay ph pm < minutesOfDay ch cm)"
proof -
  have p: "timeToMinutes (pickupTimeStr pickup) = Some (minutesOfDay ph pm)"
    using assms by (intro pickup_minutes) auto
  have c: "timeToMinutes (clock ch cm cs) = Some (minutesOfDay ch cm)"
    using assms by (intro timeToMinutes_clock) auto
  show ?thesis
    by (simp add: isPickupTimeValid_B_def p c numLt_def)
qed

theorem pickup_before_cutoff_witness:
  "isPickupTimeValid_B (Some ''22:59:59'') (Some ''23:00:00'') None
   \<and> \<not> isPickupTimeValid_B (Some ''23:00:01'') (Some ''23:00:00'') None
   \<and> \<not> isPickupTimeValid_B (Some ''23:00:00'') (Some ''23:00:00'') None
   \<and> isPickupTimeValid_B (Some ''2024-03-10 22:59:59'') (Some ''23:00:00'') (Some ''23:30:00'')"
proof -
  have t: "clock 22 59 59 = ''22:59:59''" "clock 23 0 1 = ''23:00:01''" "clock 23 0 0 = ''23:00:00''"
    "clock 23 0 (Suc 0) = ''23:00:01''"
    by code_simp+
  have d: "CHR '' '' \<notin> set ''2024-03-10''" by simp
  have "isPickupTimeValid_B (Some (clock 22 59 59)) (Some (clock 23 0 0)) None"
    using pickup_before_cutoff [of 22 59 59 23 0 0 "clock 22 59 59" "[]" None]
    by (simp add: minutesOfDay_def)
  moreover have "\<not> isPickupTimeValid_B (Some (clock 23 0 1)) (Some (clock 23 0 0)) None"
    using pickup_before_cutoff [of 23 0 1 23 0 0 "clock 23 0 1" "[]" None]
    by (simp add: minutesOfDay_def)
  moreover have "\<not> isPickupTimeValid_B (Some (clock 23 0 0)) (Some (clock 23 0 0)) None"
    using pickup_before_cutoff [of 23 0 0 23 0 0 "clock 23 0 0" "[]" None]
    by (simp add: minutesOfDay_def)
  moreover have "isPickupTimeValid_B (Some (''2024-03-10'' @ '' '' @ clock 22 59 59))
          (Some (clock 23 0 0)) (Some ''23:30:00'')"
    using pickup_before_cutoff [of 22 59 59 23 0 0 _ "''2024-03-10''" "Some ''23:30:00''"] d
    by (simp add: minutesOfDay_def)
  ultimately show ?thesis by (simp add: t)
qed

section \<open>Destination rule\<close>

lemma isDestinationAllowed_upper:
  "isDestinationAllowed d cs = (\<exists>c \<in> set cs. c = toUpperCase d)"
  by (auto simp: isDestinationAllowed_def)

text \<open>
  Claim C8. The destination is put in upper case before the lookup and the entries of
  the allow-list are compared as they are stored. A lower-case destination is accepted
  against an upper-case entry, but an entry stored in lower case matches no destination
  at all, not even the one spelled exactly like it.
\<close>

theorem destination_lower_case_entry:
  "isDestinationAllowed ''us'' [''US'']
   \<and> \<not> isDestinationAllowed ''US'' [''us'']
   \<and> \<not> isDestinationAllowed ''us'' [''us'']"
  by code_simp

section \<open>Rounding to the nearest double\<close>

lemma pow2_pos [simp]: "0 < pow2 e"
  by (simp add: pow2_def)
















lemma ulp_pos [simp]: "0 < ulp a"
  by (simp add: ulp_def)

lemma ulp_nonneg [simp]: "0 \<le> ulp a"
  by (rule less_imp_le) (rule ulp_pos)











lemma round64_not_NaN: "round64 x \<noteq> NaN"
  by (simp add: round64_def)


section \<open>Value rule\<close>







section \<open>Order of the rules\<close>

lemma validateShipmentOnly_A_first_failure:
  assumes "getShipmentDetails w a = Some sd"
  shows "validateShipmentOnly_A w a s =
     (let ci = customerInfoOf (getCustomerDetails w (Customer_ID sd))
      in case firstFailure (rules_A sd ci s) of
           Some e \<Rightarrow> Inl e
         | None \<Rightarrow> Inr \<lparr>vAwb = a, vShipmentDetails = sd, vCustomerInfo = ci\<rparr>)"
  using assms by (simp add: validateShipmentOnly_A_def firstFailure_def rules_A_def Let_def)

lemma validateShipmentOnly_B_first_failure:
  assumes "getShipmentDetails w a = Some sd"
  shows "validateShipmentOnly_B w a s =
     (let ci = customerInfoOf (getCustomerDetails w (Customer_ID sd))
      in case firstFailure (rules_B sd ci s) of
           Some e \<Rightarrow> Inl e
         | None \<Rightarrow> Inr \<lparr>vAwb = a, vShipmentDetails = sd, vCustomerInfo = ci\<rparr>)"
  using assms by (simp add: validateShipmentOnly_B_def firstFailure_def rules_B_def Let_def)

lemma validateShipmentOnly_A_supplier:
  assumes "validateShipmentOnly_A w a s = Inl SupplierNotAllowed"
  shows "\<exists>sd. getShipmentDetails w a = Some sd
     \<and> isDestinationAllowed (Destination_Country sd) (countries s)
     \<and> isPickupTimeValid_A (Create_Pick_Up_Date sd) (cutoffTime s) (cipTime s)
     \<and> \<not> isSupplierAllowed (company_name (customerInfoOf (getCustomerDetails w (Customer_ID sd))))
           (suppliers s)"
  using assms
  by (auto simp: validateShipmentOnly_A_def Let_def split: option.splits if_splits)

lemma validateShipmentOnly_B_supplier:
  assumes "validateShipmentOnly_B w a s = Inl SupplierNotAllowed"
  shows "\<exists>sd. getShipmentDetails w a = Some sd
     \<and> isDestinationAllowed (Destination_Country sd) (countries s)
     \<and> isServiceDestinationValid (Destination_Country sd) (Service_Type sd)
     \<and> isPickupTimeValid_B (Create_Pick_Up_Date sd) (cutoffTime s) (cipTime s)
     \<and> isShipmentValueValid (Package_Value sd) (minShipmentValueUsd s) (usdToInrRate s)
     \<and> \<not> isSupplierAllowed (company_name (customerInfoOf (getCustomerDetails w (Customer_ID sd))))
           (suppliers s)"
  using assms
  by (auto simp: validateShipmentOnly_B_def Let_def split: option.splits if_splits)

text \<open>
  Claim C2. Both generations of the validator report the first rule that fails, in the
  fixed order destination, (service,) pickup time, (value,) supplier: a shipment whose
  destination is not allowed gets the destination reason whatever the later rules would
  say, and a shipment rejected for its supplier has passed every rule before it.
\<close>

theorem validation_rule_order:
  "(getShipmentDetails w a = Some sd \<longrightarrow>
      validateShipmentOnly_A w a s =
        (case firstFailure (rules_A sd (customerInfoOf (getCustomerDetails w (Customer_ID sd))) s) of
           Some e \<Rightarrow> Inl e
         | None \<Rightarrow> Inr \<lparr>vAwb = a, vShipmentDetails = sd,
                        vCustomerInfo = customerInfoOf (getCustomerDetails w (Customer_ID sd))\<rparr>)
      \<and> validateShipmentOnly_B w a s =
        (case firstFailure (rules_B sd (customerInfoOf (getCustomerDetails w (Customer_ID sd))) s) of
           Some e \<Rightarrow> Inl e
         | None \<Rightarrow> Inr \<lparr>vAwb = a, vShipmentDetails = sd,
                        vCustomerInfo = customerInfoOf (getCustomerDetails w (Customer_ID sd))\<rparr>))
   \<and> (getShipmentDetails w a = Some sd
        \<and> \<not> isDestinationAllowed (Destination_Country sd) (countries s) \<longrightarrow>
      validateShipmentOnly_A w a s = Inl DestinationNotAllowed
      \<and> validateShipmentOnly_B w a s = Inl DestinationNotAllowed)
   \<and> (validateShipmentOnly_A w a s = Inl SupplierNotAllowed \<longrightarrow>
        (\<exists>d. getShipmentDetails w a = Some d
           \<and> isDestinationAllowed (Destination_Country d) (countries s)
           \<and> isPickupTimeValid_A (Create_Pick_Up_Date d) (cutoffTime s) (cipTime s)))
   \<and> (validateShipmentOnly_B w a s = Inl SupplierNotAllowed \<longrightarrow>
        (\<exists>d. getShipmentDetails w a = Some d
           \<and> isDestinationAllowed (Destination_Country d) (countries s)
           \<and> isServiceDestinationValid (Destination_Country d) (Service_Type d)
           \<and> isPickupTimeValid_B (Create_Pick_Up_Date d) (cutoffTime s) (cipTime s)
           \<and> isShipmentValueValid (Package_Value d) (minShipmentValueUsd s) (usdToInrRate s)))"
proof (intro conjI impI)
  assume "getShipmentDetails w a = Some sd"
  then show "validateShipmentOnly_A w a s =
        (case firstFailure (rules_A sd (customerInfoOf (getCustomerDetails w (Customer_ID sd))) s) of
           Some e \<Rightarrow> Inl e
         | None \<Rightarrow> Inr \<lparr>vAwb = a, vShipmentDetails = sd,
                        vCustomerInfo = customerInfoOf (getCustomerDetails w (Customer_ID sd))\<rparr>)"
    by (simp add: validateShipmentOnly_A_first_failure Let_def)
next
  assume "getShipmentDetails w a = Some sd"
  then show "validateShipmentOnly_B w a s =
        (case firstFailure (rules_B sd (customerInfoOf (getCustomerDetails w (Customer_ID sd))) s) of
           Some e \<Rightarrow> Inl e
         | None \<Rightarrow> Inr \<lparr>vAwb = a, vShipmentDetails = sd,
                        vCustomerInfo = customerInfoOf (getCustomerDetails w (Customer_ID sd))\<rparr>)"
    by (simp add: validateShipmentOnly_B_first_failure Let_def)
next
  assume "getShipmentDetails w a = Some sd
        \<and> \<not> isDestinationAllowed (Destination_Country sd) (countries s)"
  then show "validateShipmentOnly_A w a s = Inl DestinationNotAllowed"
    by (simp add: validateShipmentOnly_A_def)
next
  assume "getShipmentDetails w a = Some sd
        \<and> \<not> isDestinationAllowed (Destination_Country sd) (countries s)"
  then show "validateShipmentOnly_B w a s = Inl DestinationNotAllowed"
    by (simp add: validateShipmentOnly_B_def)
next
  assume "validateShipmentOnly_A w a s = Inl SupplierNotAllowed"
  from validateShipmentOnly_A_supplier [OF this]
  show "\<exists>d. getShipmentDetails w a = Some d
           \<and> isDestinationAllowed (Destination_Country d) (countries s)
           \<and> isPickupTimeValid_A (Create_Pick_Up_Date d) (cutoffTime s) (cipTime s)"
    by blast
next
  assume "validateShipmentOnly_B w a s = Inl SupplierNotAllowed"
  from validateShipmentOnly_B_supplier [OF this]
  show "\<exists>d. getShipmentDetails w a = Some d
           \<and> isDestinationAllowed (Destination_Country d) (countries s)
           \<and> isServiceDestinationValid (Destination_Country d) (Service_Type d)
           \<and> isPickupTimeValid_B (Create_Pick_Up_Date d) (cutoffTime s) (cipTime s)
           \<and> isShipmentValueValid (Package_Value d) (minShipmentValueUsd s) (usdToInrRate s)"
    by blast
qed

theorem validation_rule_order_witness:
  "validateShipmentOnly_A exampleWorld ''AWB2'' exampleSettings = Inl DestinationNotAllowed
   \<and> validateShipmentOnly_B exampleWorld ''AWB2'' exampleSettings_B = Inl DestinationNotAllowed
   \<and> \<not> isServiceDestinationValid ''FR'' ''Express''
   \<and> \<not> isShipmentValueValid (Num 1000) (Num 20) (Num 83)
   \<and> \<not> isSupplierAllowed (Some ''Other Traders'') [''ACME'']
   \<and> validateShipmentOnly_A exampleWorld ''AWB4'' exampleSettings = Inl SupplierNotAllowed
   \<and> isDestinationAllowed ''US'' [''US'', ''GB'']
   \<and> isPickupTimeValid_A (Some ''2024-03-10 20:00:00'') (Some ''19:00:00'') (Some ''23:30:00'')
   \<and> validateShipmentOnly_B exampleWorld ''AWB4'' exampleSettings_B = Inl SupplierNotAllowed
   \<and> isServiceDestinationValid ''US'' ''Ship+''
   \<and> isPickupTimeValid_B (Some ''2024-03-10 20:00:00'') (Some ''23:00:00'') (Some ''23:30:00'')
   \<and> isShipmentValueValid (Num 5000) (Num 20) (Num 83)"
proof -
  define sd2 where "sd2 = exampleShipment ''AWB2'' ''FR'' ''Express'' ''2024-03-10 20:00:00'' 1000 ''C2''"
  define sd4 where "sd4 = exampleShipment ''AWB4'' ''US'' ''Ship+'' ''2024-03-10 20:00:00'' 5000 ''C2''"
  have f2: "getShipmentDetails exampleWorld ''AWB2'' = Some sd2"
    unfolding sd2_def by code_simp
  have f4: "getShipmentDetails exampleWorld ''AWB4'' = Some sd4"
    unfolding sd4_def by code_simp
  have d2: "\<not> isDestinationAllowed (Destination_Country sd2) (countries exampleSettings)"
    "\<not> isDestinationAllowed (Destination_Country sd2) (countries exampleSettings_B)"
    unfolding sd2_def by code_simp+
  have later: "\<not> isServiceDestinationValid ''FR'' ''Express''"
    "\<not> isShipmentValueValid (Num 1000) (Num 20) (Num 83)"
    "\<not> isSupplierAllowed (Some ''Other Traders'') [''ACME'']"
    by code_simp+
  have rejA: "validateShipmentOnly_A exampleWorld ''AWB4'' exampleSettings = Inl SupplierNotAllowed"
    by code_simp
  have rejB: "validateShipmentOnly_B exampleWorld ''AWB4'' exampleSettings_B = Inl SupplierNotAllowed"
    by code_simp
  have fields: "Destination_Country sd4 = ''US''" "Service_Type sd4 = ''Ship+''"
    "Create_Pick_Up_Date sd4 = Some ''2024-03-10 20:00:00''" "Package_Value sd4 = Num 5000"
    by (simp_all add: sd4_def exampleShipment_def)
  have sets: "countries exampleSettings = [''US'', ''GB'']" "countries exampleSettings_B = [''US'', ''GB'']"
    "cutoffTime exampleSettings = Some ''19:00:00''" "cipTime exampleSettings = Some ''23:30:00''"
    "cutoffTime exampleSettings_B = Some ''23:00:00''" "cipTime exampleSettings_B = Some ''23:30:00''"
    "minShipmentValueUsd exampleSettings_B = Num 20" "usdToInrRate exampleSettings_B = Num 83"
    by (simp_all add: exampleSettings_def exampleSettings_B_def)
  note A2 = validation_rule_order [of exampleWorld "''AWB2''" sd2 exampleSettings]
  note B2 = validation_rule_order [of exampleWorld "''AWB2''" sd2 exampleSettings_B]
  note A4 = validation_rule_order [of exampleWorld "''AWB4''" sd4 exampleSettings]
  note B4 = validation_rule_order [of exampleWorld "''AWB4''" sd4 exampleSettings_B]
  have c1: "validateShipmentOnly_A exampleWorld ''AWB2'' exampleSettings = Inl DestinationNotAllowed"
    using A2 f2 d2(1) by blast
  have c2: "validateShipmentOnly_B exampleWorld ''AWB2'' exampleSettings_B = Inl DestinationNotAllowed"
    using B2 f2 d2(2) by blast
  have "isDestinationAllowed (Destination_Country sd4) (countries exampleSettings)
      \<and> isPickupTimeValid_A (Create_Pick_Up_Date sd4) (cutoffTime exampleSettings) (cipTime exampleSettings)"
    using A4 rejA f4 by (metis option.inject)
  then have c3: "isDestinationAllowed ''US'' [''US'', ''GB'']"
    "isPickupTimeValid_A (Some ''2024-03-10 20:00:00'') (Some ''19:00:00'') (Some ''23:30:00'')"
    by (simp_all add: fields sets)
  have "isServiceDestinationValid (Destination_Country sd4) (Service_Type sd4)
      \<and> isPickupTimeValid_B (Create_Pick_Up_Date sd4) (cutoffTime exampleSettings_B) (cipTime exampleSettings_B)
      \<and> isShipmentValueValid (Package_Value sd4) (minShipmentValueUsd exampleSettings_B)
           (usdToInrRate exampleSettings_B)"
    using B4 rejB f4 by (metis option.inject)
  then have c4: "isServiceDestinationValid ''US'' ''Ship+''"
    "isPickupTimeValid_B (Some ''2024-03-10 20:00:00'') (Some ''23:00:00'') (Some ''23:30:00'')"
    "isShipmentValueValid (Num 5000) (Num 20) (Num 83)"
    by (simp_all add: fields sets)
  show ?thesis
    using c1 c2 later rejA c3 rejB c4 by blast
qed

section \<open>The loops of the orchestrator\<close>

lemma validateShipmentOnly_A_awb:
  "validateShipmentOnly_A w a s = Inr v \<Longrightarrow> vAwb v = a"
  by (auto simp: validateShipmentOnly_A_def Let_def split: option.splits if_splits)

lemma validVerdicts_Cons:
  "validVerdicts w s (a # as) =
     (case validateShipmentOnly_A w a s of
        Inr v \<Rightarrow> v # validVerdicts w s as
      | Inl e \<Rightarrow> validVerdicts w s as)"
  by (simp add: validVerdicts_def map_filter_simps split: sum.splits)

lemma invalidVerdicts_Cons:
  "invalidVerdicts w s (a # as) =
     (case validateShipmentOnly_A w a s of
        Inr v \<Rightarrow> invalidVerdicts w s as
      | Inl e \<Rightarrow> (a, e) # invalidVerdicts w s as)"
  by (simp add: invalidVerdicts_def map_filter_simps split: sum.splits)

lemma verdicts_Nil: "validVerdicts w s [] = []" "invalidVerdicts w s [] = []"
  by (simp_all add: validVerdicts_def invalidVerdicts_def map_filter_simps)

lemma validationLoop_verdicts:
  "validationLoop w s as valid invalid =
     (valid @ validVerdicts w s as, invalid @ invalidVerdicts w s as)"
proof (induction as arbitrary: valid invalid)
  case Nil
  show ?case by (simp add: verdicts_Nil)
next
  case (Cons a as)
  show ?case
    by (cases "validateShipmentOnly_A w a s")
       (simp_all add: Cons.IH validVerdicts_Cons invalidVerdicts_Cons)
qed

lemma validVerdicts_awbs:
  "map vAwb (validVerdicts w s as) = filter (isValidAwb w s) as"
proof (induction as)
  case Nil
  show ?case by (simp add: verdicts_Nil)
next
  case (Cons a as)
  show ?case
  proof (cases "validateShipmentOnly_A w a s")
    case (Inl e)
    then show ?thesis by (simp add: Cons.IH validVerdicts_Cons isValidAwb_def)
  next
    case (Inr v)
    then show ?thesis
      by (simp add: Cons.IH validVerdicts_Cons isValidAwb_def validateShipmentOnly_A_awb)
  qed
qed

lemma invalidVerdicts_awbs:
  "map fst (invalidVerdicts w s as) = filter (\<lambda>a. \<not> isValidAwb w s a) as"
proof (induction as)
  case Nil
  show ?case by (simp add: verdicts_Nil)
next
  case (Cons a as)
  show ?case
    by (cases "validateShipmentOnly_A w a s")
       (simp_all add: Cons.IH invalidVerdicts_Cons isValidAwb_def)
qed

text \<open>Validating a prefix of the listing gives a prefix of the valid list.\<close>

lemma validVerdicts_take:
  "\<exists>k \<le> n. validVerdicts w s (take n as) = take k (validVerdicts w s as)"
proof (induction as arbitrary: n)
  case Nil
  show ?case by (intro exI [of _ 0]) (simp add: verdicts_Nil)
next
  case (Cons a as)
  show ?case
  proof (cases n)
    case 0
    then show ?thesis by (intro exI [of _ 0]) (simp add: verdicts_Nil)
  next
    case (Suc m)
    from Cons.IH [of m] obtain k where k: "k \<le> m"
      "validVerdicts w s (take m as) = take k (validVerdicts w s as)" by blast
    show ?thesis
    proof (cases "validateShipmentOnly_A w a s")
      case (Inl e)
      then have "validVerdicts w s (take n (a # as)) = take k (validVerdicts w s (a # as))"
        using Suc k by (simp add: validVerdicts_Cons)
      moreover have "k \<le> n" using k Suc by simp
      ultimately show ?thesis by blast
    next
      case (Inr v)
      then have "validVerdicts w s (take n (a # as)) = take (Suc k) (validVerdicts w s (a # as))"
        using Suc k by (simp add: validVerdicts_Cons)
      moreover have "Suc k \<le> n" using k Suc by simp
      ultimately show ?thesis by blast
    qed
  qed
qed

lemma validVerdicts_take_length:
  "length (validVerdicts w s (take n as)) \<le> length (take n (validVerdicts w s as))"
proof -
  obtain k where "k \<le> n" "validVerdicts w s (take n as) = take k (validVerdicts w s as)"
    using validVerdicts_take by blast
  then show ?thesis by simp
qed

section \<open>Processing one validated shipment\<close>

lemma processValidatedShipment_cases:
  "processValidatedShipment w v s st =
     (let st1 = st\<lparr>covrzyCalls := covrzyCalls st @ [payloadOf w v]\<rparr>
      in case covrzyApi w (payloadOf w v) of
           None \<Rightarrow> (Inl CovrzyApiFailed, st1)
         | Some response \<Rightarrow>
             if responseSuccessful response
             then if \<not> dbAvailable w then (Inl DatabaseFailed, st1)
                  else if \<not> bindable (company_name (vCustomerInfo v)) response
                  then (Inl UndefinedBindParameter, st1)
                  else (Inr \<lparr>coverzyResponse = response, savedToDatabase = True, error = None\<rparr>,
                        st1\<lparr>coverzy_shipments :=
                          upsertRow (rowOf (vAwb v) (company_name (vCustomerInfo v))
                                      (Destination_Country (vShipmentDetails v)) response)
                            (coverzy_shipments st)\<rparr>)
             else (Inr \<lparr>coverzyResponse = response, savedToDatabase = False,
                        error = Some ''Coverzy API response not successful''\<rparr>, st1))"
  by (simp add: processValidatedShipment_def sendToCovrzyAPI_def saveShipmentToDatabase_def
        payloadOf_def rowOf_def Let_def split: option.splits)

lemma upsertRow_keys:
  "shipment_id ` set (upsertRow r rows) = insert (shipment_id r) (shipment_id ` set rows)"
  by (induction rows) auto

lemma processValidatedShipment_effects:
  assumes "processValidatedShipment w v s st = (out, st')"
  shows "covrzyCalls st' = covrzyCalls st @ [payloadOf w v]"
    and "cron_error_logs st' = cron_error_logs st"
    and "emails st' = emails st"
    and "set (map shipment_id (coverzy_shipments st)) \<subseteq> set (map shipment_id (coverzy_shipments st'))"
  using assms
  by (auto simp: processValidatedShipment_cases Let_def upsertRow_keys
           split: option.splits if_splits)

lemma processingLoop_effects:
  assumes "processingLoop w s vs st res errs = (st', res', errs')"
  shows "covrzyCalls st' = covrzyCalls st @ map (payloadOf w) vs
    \<and> cron_error_logs st' = cron_error_logs st
    \<and> emails st' = emails st
    \<and> set (map shipment_id (coverzy_shipments st)) \<subseteq> set (map shipment_id (coverzy_shipments st'))
    \<and> (\<exists>rs es. res' = res @ rs \<and> errs' = errs @ es
          \<and> fst ` set rs \<union> fst ` set es \<subseteq> vAwb ` set vs
          \<and> length rs + length es = length vs)"
  using assms
proof (induction vs arbitrary: st res errs)
  case Nil
  then show ?case by simp
next
  case (Cons v vs)
  obtain out st1 where step: "processValidatedShipment w v s st = (out, st1)"
    by (cases "processValidatedShipment w v s st") auto
  note eff = processValidatedShipment_effects [OF step]
  show ?case
  proof (cases out)
    case (Inl e)
    with Cons.prems step
    have "processingLoop w s vs st1 res (errs @ [(vAwb v, e)]) = (st', res', errs')" by simp
    from Cons.IH [OF this] obtain rs es where ih:
      "covrzyCalls st' = covrzyCalls st1 @ map (payloadOf w) vs"
      "cron_error_logs st' = cron_error_logs st1" "emails st' = emails st1"
      "set (map shipment_id (coverzy_shipments st1)) \<subseteq> set (map shipment_id (coverzy_shipments st'))"
      "res' = res @ rs" "errs' = (errs @ [(vAwb v, e)]) @ es"
      "fst ` set rs \<union> fst ` set es \<subseteq> vAwb ` set vs" "length rs + length es = length vs"
      by blast
    have "errs' = errs @ ((vAwb v, e) # es)" using ih(6) by simp
    moreover have "fst ` set rs \<union> fst ` set ((vAwb v, e) # es) \<subseteq> vAwb ` set (v # vs)"
      using ih(7) by auto
    moreover have "length rs + length ((vAwb v, e) # es) = length (v # vs)"
      using ih(8) by simp
    ultimately have "\<exists>rs es. res' = res @ rs \<and> errs' = errs @ es
          \<and> fst ` set rs \<union> fst ` set es \<subseteq> vAwb ` set (v # vs)
          \<and> length rs + length es = length (v # vs)"
      using ih(5) by blast
    then show ?thesis using ih(1-4) eff by auto
  next
    case (Inr r)
    with Cons.prems step
    have "processingLoop w s vs st1 (res @ [(vAwb v, r)]) errs = (st', res', errs')" by simp
    from Cons.IH [OF this] obtain rs es where ih:
      "covrzyCalls st' = covrzyCalls st1 @ map (payloadOf w) vs"
      "cron_error_logs st' = cron_error_logs st1" "emails st' = emails st1"
      "set (map shipment_id (coverzy_shipments st1)) \<subseteq> set (map shipment_id (coverzy_shipments st'))"
      "res' = (res @ [(vAwb v, r)]) @ rs" "errs' = errs @ es"
      "fst ` set rs \<union> fst ` set es \<subseteq> vAwb ` set vs" "length rs + length es = length vs"
      by blast
    have "res' = res @ ((vAwb v, r) # rs)" using ih(5) by simp
    moreover have "fst ` set ((vAwb v, r) # rs) \<union> fst ` set es \<subseteq> vAwb ` set (v # vs)"
      using ih(7) by auto
    moreover have "length ((vAwb v, r) # rs) + length es = length (v # vs)"
      using ih(8) by simp
    ultimately have "\<exists>rs es. res' = res @ rs \<and> errs' = errs @ es
          \<and> fst ` set rs \<union> fst ` set es \<subseteq> vAwb ` set (v # vs)
          \<and> length rs + length es = length (v # vs)"
      using ih(6) by blast
    then show ?thesis using ih(1-4) eff by auto
  qed
qed

section \<open>The single-pass path against the validator\<close>

lemma processShipment_invalid:
  "validateShipmentOnly_A w a s = Inl e \<Longrightarrow> processShipment w a s st = (Inl e, st)"
  by (auto simp: validateShipmentOnly_A_def processShipment_def Let_def
           split: option.splits if_splits)

lemma validateShipmentOnly_A_valid:
  assumes "validateShipmentOnly_A w a s = Inr v"
  shows "\<exists>sd. getShipmentDetails w a = Some sd
    \<and> isDestinationAllowed (Destination_Country sd) (countries s)
    \<and> isPickupTimeValid_A (Create_Pick_Up_Date sd) (cutoffTime s) (cipTime s)
    \<and> isSupplierAllowed (company_name (customerInfoOf (getCustomerDetails w (Customer_ID sd))))
          (suppliers s)
    \<and> v = \<lparr>vAwb = a, vShipmentDetails = sd,
              vCustomerInfo = customerInfoOf (getCustomerDetails w (Customer_ID sd))\<rparr>"
  using assms
  by (auto simp: validateShipmentOnly_A_def Let_def split: option.splits if_splits)

lemma processShipment_valid:
  assumes "validateShipmentOnly_A w a s = Inr v"
  shows "processShipment w a s st = processValidatedShipment w v s st"
proof -
  from validateShipmentOnly_A_valid [OF assms] obtain sd where sd:
    "getShipmentDetails w a = Some sd"
    "isDestinationAllowed (Destination_Country sd) (countries s)"
    "isPickupTimeValid_A (Create_Pick_Up_Date sd) (cutoffTime s) (cipTime s)"
    "isSupplierAllowed (company_name (customerInfoOf (getCustomerDetails w (Customer_ID sd))))
          (suppliers s)"
    "v = \<lparr>vAwb = a, vShipmentDetails = sd,
              vCustomerInfo = customerInfoOf (getCustomerDetails w (Customer_ID sd))\<rparr>"
    by blast
  show ?thesis
    unfolding sd(5) using sd(1-4)
    by (simp add: processShipment_def processValidatedShipment_def Let_def
          split: prod.splits sum.splits)
qed

lemma singlePassLoop_effects:
  assumes "singlePassLoop w s as st res errs = (st', res', errs')"
  shows "covrzyCalls st' = covrzyCalls st @ map (payloadOf w) (validVerdicts w s as)
    \<and> cron_error_logs st' = cron_error_logs st
    \<and> emails st' = emails st
    \<and> set (map shipment_id (coverzy_shipments st)) \<subseteq> set (map shipment_id (coverzy_shipments st'))"
  using assms
proof (induction as arbitrary: st res errs)
  case Nil
  then show ?case by (simp add: verdicts_Nil)
next
  case (Cons a as)
  show ?case
  proof (cases "validateShipmentOnly_A w a s")
    case (Inl e)
    with Cons.prems
    have "singlePassLoop w s as st res (errs @ [(a, e)]) = (st', res', errs')"
      by (simp add: processShipment_invalid)
    from Cons.IH [OF this] Inl show ?thesis
      by (simp add: validVerdicts_Cons)
  next
    case (Inr v)
    obtain out st1 where step: "processValidatedShipment w v s st = (out, st1)"
      by (cases "processValidatedShipment w v s st") auto
    note eff = processValidatedShipment_effects [OF step]
    have "\<exists>res1 errs1. singlePassLoop w s as st1 res1 errs1 = (st', res', errs')"
      using Cons.prems Inr step
      by (cases out) (auto simp: processShipment_valid)
    then obtain res1 errs1 where "singlePassLoop w s as st1 res1 errs1 = (st', res', errs')"
      by blast
    from Cons.IH [OF this] Inr eff show ?thesis
      by (auto simp: validVerdicts_Cons)
  qed
qed

section \<open>The scheduled run\<close>

lemma getCoverzySettings_loaded:
  "dbAvailable w \<Longrightarrow> settingsRow w = Some s \<Longrightarrow> getCoverzySettings w st = (Some s, st)"
  by (simp add: getCoverzySettings_def)

lemma slice0_nonneg: "0 \<le> n \<Longrightarrow> slice0 xs n = take (nat n) xs"
  by (simp add: slice0_def)

lemma successRate_none: "successRate k 0 = 0"
  by (simp add: successRate_def)

lemma scheduled_run_empty_cap:
  assumes "dbAvailable w" "settingsRow w = Some s"
    and "dailyShipments w (yesterdayDate w) = Some as" "as \<noteq> []"
    and "slice0 (validVerdicts w s as) (maxShipments s) = []"
  shows "processPreviousDayShipments w st =
     (Inr \<lparr>results = [], errors = invalidVerdicts w s as, total = length as,
           processed = Some 0, validFound = Some (length (validVerdicts w s as)),
           date = Some (yesterdayDate w)\<rparr>, st)"
  using assms
  by (simp add: processPreviousDayShipments_def getCoverzySettings_loaded
        validationLoop_verdicts successRate_none Let_def)

lemma scheduled_run:
  assumes "dbAvailable w" "settingsRow w = Some s"
    and "dailyShipments w (yesterdayDate w) = Some as"
  shows "\<exists>r st' pe. processPreviousDayShipments w st = (Inr r, st')
    \<and> total r = length as
    \<and> (as \<noteq> [] \<longrightarrow> validFound r = Some (length (validVerdicts w s as))
          \<and> processed r = Some (length (slice0 (validVerdicts w s as) (maxShipments s))))
    \<and> covrzyCalls st' =
        covrzyCalls st @ map (payloadOf w) (slice0 (validVerdicts w s as) (maxShipments s))
    \<and> errors r = invalidVerdicts w s as @ pe
    \<and> fst ` set pe \<subseteq> vAwb ` set (slice0 (validVerdicts w s as) (maxShipments s))
    \<and> cron_error_logs st' = cron_error_logs st
    \<and> set (map shipment_id (coverzy_shipments st)) \<subseteq> set (map shipment_id (coverzy_shipments st'))"
proof (cases "as = []")
  case True
  then show ?thesis
    using assms
    by (simp add: processPreviousDayShipments_def getCoverzySettings_loaded verdicts_Nil slice0_def)
next
  case False
  show ?thesis
  proof (cases "validVerdicts w s as = []")
    case True
    then have "slice0 (validVerdicts w s as) (maxShipments s) = []"
      by (simp add: slice0_def)
    from scheduled_run_empty_cap [OF assms False this, of st] this True
    show ?thesis by simp
  next
    case valid: False
    define todo where "todo = slice0 (validVerdicts w s as) (maxShipments s)"
    obtain st2 res pe where loop: "processingLoop w s todo st [] [] = (st2, res, pe)"
      by (cases "processingLoop w s todo st [] []") auto
    from processingLoop_effects [OF loop] have eff:
      "covrzyCalls st2 = covrzyCalls st @ map (payloadOf w) todo"
      "cron_error_logs st2 = cron_error_logs st"
      "set (map shipment_id (coverzy_shipments st)) \<subseteq> set (map shipment_id (coverzy_shipments st2))"
      "fst ` set pe \<subseteq> vAwb ` set todo"
      by auto
    define st3 where "st3 =
      (if successRate (length res) (length todo) \<ge> 80
       then sendDailySummaryEmail
              \<lparr>stat_totalShipments = length as,
               stat_validShipments = length (validVerdicts w s as),
               stat_processedShipments = length todo,
               stat_successfulShipments = length res,
               stat_failedValidation = length (invalidVerdicts w s as),
               stat_failedProcessing = length pe\<rparr> st2
       else st2)"
    have st3: "covrzyCalls st3 = covrzyCalls st2" "cron_error_logs st3 = cron_error_logs st2"
      "coverzy_shipments st3 = coverzy_shipments st2"
      by (simp_all add: st3_def sendDailySummaryEmail_def)
    have "processPreviousDayShipments w st =
      (Inr \<lparr>results = res, errors = invalidVerdicts w s as @ pe, total = length as,
            processed = Some (length todo), validFound = Some (length (validVerdicts w s as)),
            date = Some (yesterdayDate w)\<rparr>, st3)"
      using assms False valid loop
      by (simp add: processPreviousDayShipments_def getCoverzySettings_loaded
            validationLoop_verdicts Let_def todo_def [symmetric] st3_def)
    then show ?thesis
      using eff st3 by (simp add: todo_def)
  qed
qed

text \<open>
  Claim C3. In the scheduled run every listed identifier gets its verdict (the result
  counts the valid ones and reports the invalid ones of the whole listing), the shipments
  submitted to the underwriting partner are exactly the first \<open>min N (number of valid)\<close>
  entries of the valid list in listing order, for \<open>N = maxShipments \<ge> 0\<close>, and the valid
  shipments beyond the cap are neither submitted nor reported or logged as errors.
\<close>

theorem scheduled_run_caps_valid_list:
  assumes "dbAvailable w" "settingsRow w = Some s"
    and "dailyShipments w (yesterdayDate w) = Some awbNumbers"
    and "0 \<le> maxShipments s"
  shows "\<exists>r st' pe. processPreviousDayShipments w st = (Inr r, st')
    \<and> total r = length awbNumbers
    \<and> map vAwb (validVerdicts w s awbNumbers) = filter (isValidAwb w s) awbNumbers
    \<and> map fst (invalidVerdicts w s awbNumbers) = filter (\<lambda>a. \<not> isValidAwb w s a) awbNumbers
    \<and> (awbNumbers \<noteq> [] \<longrightarrow>
          validFound r = Some (length (validVerdicts w s awbNumbers))
          \<and> processed r =
              Some (min (nat (maxShipments s)) (length (validVerdicts w s awbNumbers))))
    \<and> covrzyCalls st' =
        covrzyCalls st
          @ map (payloadOf w) (take (nat (maxShipments s)) (validVerdicts w s awbNumbers))
    \<and> errors r = invalidVerdicts w s awbNumbers @ pe
    \<and> fst ` set pe \<subseteq> vAwb ` set (take (nat (maxShipments s)) (validVerdicts w s awbNumbers))
    \<and> cron_error_logs st' = cron_error_logs st"
proof -
  have cut: "slice0 (validVerdicts w s awbNumbers) (maxShipments s) =
      take (nat (maxShipments s)) (validVerdicts w s awbNumbers)"
    using assms(4) by (rule slice0_nonneg)
  from scheduled_run [OF assms(1-3), of st] obtain r st' pe where run:
    "processPreviousDayShipments w st = (Inr r, st')"
    "total r = length awbNumbers"
    "awbNumbers \<noteq> [] \<longrightarrow> validFound r = Some (length (validVerdicts w s awbNumbers))
          \<and> processed r = Some (length (slice0 (validVerdicts w s awbNumbers) (maxShipments s)))"
    "covrzyCalls st' =
        covrzyCalls st @ map (payloadOf w) (slice0 (validVerdicts w s awbNumbers) (maxShipments s))"
    "errors r = invalidVerdicts w s awbNumbers @ pe"
    "fst ` set pe \<subseteq> vAwb ` set (slice0 (validVerdicts w s awbNumbers) (maxShipments s))"
    "cron_error_logs st' = cron_error_logs st"
    by blast
  have len: "length (take (nat (maxShipments s)) (validVerdicts w s awbNumbers)) =
      min (nat (maxShipments s)) (length (validVerdicts w s awbNumbers))"
    by (simp add: min.commute)
  show ?thesis
    using run validVerdicts_awbs [of w s awbNumbers] invalidVerdicts_awbs [of w s awbNumbers]
    unfolding cut len by blast
qed

theorem scheduled_run_caps_valid_list_witness:
  "(\<exists>r st' pe.
      processPreviousDayShipments (worldWith [''AWB1'', ''AWB2'', ''AWB3''] 1) emptyState = (Inr r, st')
      \<and> total r = 3
      \<and> validFound r = Some 2
      \<and> processed r = Some 1
      \<and> map shipment_awb (covrzyCalls st') = [''AWB1'']
      \<and> errors r = [(''AWB2'', DestinationNotAllowed)] @ pe
      \<and> fst ` set pe \<subseteq> {''AWB1''}
      \<and> cron_error_logs st' = [])
   \<and> filter (isValidAwb (worldWith [''AWB1'', ''AWB2'', ''AWB3''] 1) (cappedSettings 1))
        [''AWB1'', ''AWB2'', ''AWB3''] = [''AWB1'', ''AWB3'']"
proof -
  define W where "W = worldWith [''AWB1'', ''AWB2'', ''AWB3''] 1"
  define S where "S = cappedSettings 1"
  define L where "L = [''AWB1'', ''AWB2'', ''AWB3'']"
  have h: "dbAvailable W" "settingsRow W = Some S" "dailyShipments W (yesterdayDate W) = Some L"
    "0 \<le> maxShipments S"
    by (simp_all add: W_def S_def L_def worldWith_def cappedSettings_def exampleWorld_def
          exampleSettings_def)
  have n: "nat (maxShipments S) = 1"
    by (simp add: S_def cappedSettings_def exampleSettings_def)
  have valid: "map vAwb (validVerdicts W S L) = [''AWB1'', ''AWB3'']"
    unfolding W_def S_def L_def by code_simp
  have invalid: "invalidVerdicts W S L = [(''AWB2'', DestinationNotAllowed)]"
    unfolding W_def S_def L_def by code_simp
  have sent: "map shipment_awb (map (payloadOf W) (take 1 (validVerdicts W S L))) = [''AWB1'']"
    unfolding W_def S_def L_def by code_simp
  have first: "vAwb ` set (take 1 (validVerdicts W S L)) = {''AWB1''}"
    unfolding W_def S_def L_def by code_simp
  have len: "length (validVerdicts W S L) = 2" "length L = 3" "L \<noteq> []"
    using valid by (auto simp: L_def dest: arg_cong [where f = length])
  from scheduled_run_caps_valid_list [OF h, of emptyState] obtain r st' pe where run:
    "processPreviousDayShipments W emptyState = (Inr r, st')"
    "total r = length L"
    "map vAwb (validVerdicts W S L) = filter (isValidAwb W S) L"
    "L \<noteq> [] \<longrightarrow> validFound r = Some (length (validVerdicts W S L))
        \<and> processed r = Some (min (nat (maxShipments S)) (length (validVerdicts W S L)))"
    "covrzyCalls st' =
       covrzyCalls emptyState @ map (payloadOf W) (take (nat (maxShipments S)) (validVerdicts W S L))"
    "errors r = invalidVerdicts W S L @ pe"
    "fst ` set pe \<subseteq> vAwb ` set (take (nat (maxShipments S)) (validVerdicts W S L))"
    "cron_error_logs st' = cron_error_logs emptyState"
    by blast
  have c2: "total r = 3" using run(2) len by simp
  have c3: "validFound r = Some 2" and c4: "processed r = Some 1"
    using run(4) len n by simp_all
  have c5: "map shipment_awb (covrzyCalls st') = [''AWB1'']"
    using run(5) sent n by (simp add: emptyState_def)
  have c6: "errors r = [(''AWB2'', DestinationNotAllowed)] @ pe"
    using run(6) invalid by simp
  have c7: "fst ` set pe \<subseteq> {''AWB1''}"
    using run(7) first n by simp
  have c8: "cron_error_logs st' = []"
    using run(8) by (simp add: emptyState_def)
  have c9: "filter (isValidAwb W S) L = [''AWB1'', ''AWB3'']"
    using run(3) valid by simp
  have "(\<exists>r st' pe.
      processPreviousDayShipments W emptyState = (Inr r, st')
      \<and> total r = 3
      \<and> validFound r = Some 2
      \<and> processed r = Some 1
      \<and> map shipment_awb (covrzyCalls st') = [''AWB1'']
      \<and> errors r = [(''AWB2'', DestinationNotAllowed)] @ pe
      \<and> fst ` set pe \<subseteq> {''AWB1''}
      \<and> cron_error_logs st' = [])
   \<and> filter (isValidAwb W S) L = [''AWB1'', ''AWB3'']"
    by (intro conjI exI [of _ r] exI [of _ st'] exI [of _ pe])
       (rule run(1) c2 c3 c4 c5 c6 c7 c8 c9)+
  then show ?thesis
    unfolding W_def S_def L_def .
qed

text \<open>
  Claim C10. In the scheduled run, when the listing is not empty and the capped list
  of valid shipments is empty (no valid shipment, or a cap of 0), the success rate is 0
  without any division, the run returns with \<open>processed = 0\<close> and no result, and the
  state is untouched: nothing is submitted, nothing is saved and no email is sent.
\<close>

theorem empty_capped_subset:
  assumes "dbAvailable w" "settingsRow w = Some s"
    and "dailyShipments w (yesterdayDate w) = Some awbNumbers" "awbNumbers \<noteq> []"
    and "slice0 (fst (validationLoop w s awbNumbers [] [])) (maxShipments s) = []"
  shows "successRate k (length (slice0 (fst (validationLoop w s awbNumbers [] [])) (maxShipments s))) = 0
    \<and> (\<exists>r. processPreviousDayShipments w st = (Inr r, st)
          \<and> processed r = Some 0 \<and> results r = [] \<and> total r = length awbNumbers)"
proof -
  have "slice0 (validVerdicts w s awbNumbers) (maxShipments s) = []"
    using assms(5) by (simp add: validationLoop_verdicts)
  from scheduled_run_empty_cap [OF assms(1-4) this, of st] assms(5)
  show ?thesis by (simp add: successRate_none)
qed

theorem empty_capped_subset_witness:
  "length (fst (validationLoop (worldWith [''AWB1'', ''AWB2'', ''AWB3''] 0) (cappedSettings 0)
             [''AWB1'', ''AWB2'', ''AWB3''] [] [])) = 2
   \<and> (\<exists>r. processPreviousDayShipments (worldWith [''AWB1'', ''AWB2'', ''AWB3''] 0) emptyState
            = (Inr r, emptyState)
          \<and> processed r = Some 0 \<and> results r = [] \<and> total r = 3)
   \<and> successRate 0 0 = 0"
proof -
  define W where "W = worldWith [''AWB1'', ''AWB2'', ''AWB3''] 0"
  define S where "S = cappedSettings 0"
  define L where "L = [''AWB1'', ''AWB2'', ''AWB3'']"
  have h: "dbAvailable W" "settingsRow W = Some S" "dailyShipments W (yesterdayDate W) = Some L"
    "L \<noteq> []"
    by (simp_all add: W_def S_def L_def worldWith_def cappedSettings_def exampleWorld_def)
  have cap: "slice0 (fst (validationLoop W S L [] [])) (maxShipments S) = []"
    by (simp add: slice0_def S_def cappedSettings_def)
  have two: "length (fst (validationLoop W S L [] [])) = 2"
    unfolding W_def S_def L_def by code_simp
  have len: "length L = 3" by (simp add: L_def)
  from empty_capped_subset [OF h cap, of 0 emptyState]
  have "\<exists>r. processPreviousDayShipments W emptyState = (Inr r, emptyState)
          \<and> processed r = Some 0 \<and> results r = [] \<and> total r = length L"
    by (rule conjunct2)
  then have run: "\<exists>r. processPreviousDayShipments W emptyState = (Inr r, emptyState)
          \<and> processed r = Some 0 \<and> results r = [] \<and> total r = 3"
    unfolding len .
  have "length (fst (validationLoop W S L [] [])) = 2
    \<and> (\<exists>r. processPreviousDayShipments W emptyState = (Inr r, emptyState)
          \<and> processed r = Some 0 \<and> results r = [] \<and> total r = 3)
    \<and> successRate 0 0 = 0"
    by (intro conjI) (rule two run successRate_none)+
  then show ?thesis
    unfolding W_def S_def L_def .
qed

section \<open>The single-date run\<close>

lemma single_date_run:
  assumes "dbAvailable w" "settingsRow w = Some s" "dailyShipments w d = Some as"
  shows "\<exists>r st'. processShipmentsForDate w d st = (Inr r, st')
    \<and> covrzyCalls st' =
        covrzyCalls st @ map (payloadOf w) (validVerdicts w s (slice0 as (maxShipments s)))
    \<and> cron_error_logs st' = cron_error_logs st
    \<and> emails st' = emails st
    \<and> set (map shipment_id (coverzy_shipments st)) \<subseteq> set (map shipment_id (coverzy_shipments st'))"
proof (cases "as = []")
  case True
  then show ?thesis
    using assms
    by (simp add: processShipmentsForDate_def getCoverzySettings_loaded verdicts_Nil slice0_def)
next
  case False
  obtain st2 res errs where loop:
    "singlePassLoop w s (slice0 as (maxShipments s)) st [] [] = (st2, res, errs)"
    by (cases "singlePassLoop w s (slice0 as (maxShipments s)) st [] []") auto
  have "processShipmentsForDate w d st =
      (Inr \<lparr>results = res, errors = errs, total = length as,
            processed = Some (length (slice0 as (maxShipments s))),
            validFound = None, date = None\<rparr>, st2)"
    using assms False loop
    by (simp add: processShipmentsForDate_def getCoverzySettings_loaded Let_def)
  then show ?thesis
    using singlePassLoop_effects [OF loop] by simp
qed

text \<open>
  Claim C4. The single-date entry point cuts the raw listing to the cap and validates
  only that prefix; the scheduled entry point validates the whole listing and cuts the
  valid list. On the same world the single-date run therefore never submits more
  shipments than the scheduled run, and there is a listing on which it submits strictly
  fewer.
\<close>

theorem single_date_caps_before_validation:
  assumes "dbAvailable w" "settingsRow w = Some s"
    and "dailyShipments w d = Some awbNumbers"
    and "dailyShipments w (yesterdayDate w) = Some awbNumbers"
    and "0 \<le> maxShipments s"
  shows "covrzyCalls (snd (processShipmentsForDate w d st)) =
       covrzyCalls st
         @ map (payloadOf w) (validVerdicts w s (take (nat (maxShipments s)) awbNumbers))
    \<and> covrzyCalls (snd (processPreviousDayShipments w st)) =
       covrzyCalls st
         @ map (payloadOf w) (take (nat (maxShipments s)) (validVerdicts w s awbNumbers))
    \<and> length (covrzyCalls (snd (processShipmentsForDate w d st)))
         \<le> length (covrzyCalls (snd (processPreviousDayShipments w st)))
    \<and> (\<exists>w' d' st'. dailyShipments w' d' = dailyShipments w' (yesterdayDate w')
          \<and> length (covrzyCalls (snd (processShipmentsForDate w' d' st')))
              < length (covrzyCalls (snd (processPreviousDayShipments w' st'))))"
proof -
  have single: "covrzyCalls (snd (processShipmentsForDate w d st)) =
       covrzyCalls st
         @ map (payloadOf w) (validVerdicts w s (take (nat (maxShipments s)) awbNumbers))"
    using single_date_run [OF assms(1-3), of st] assms(5) by (auto simp: slice0_nonneg)
  have sched: "covrzyCalls (snd (processPreviousDayShipments w st)) =
       covrzyCalls st
         @ map (payloadOf w) (take (nat (maxShipments s)) (validVerdicts w s awbNumbers))"
    using scheduled_run [OF assms(1,2,4), of st] assms(5) by (auto simp: slice0_nonneg)
  have le: "length (covrzyCalls (snd (processShipmentsForDate w d st)))
         \<le> length (covrzyCalls (snd (processPreviousDayShipments w st)))"
    unfolding single sched
    using validVerdicts_take_length [of w s "nat (maxShipments s)" awbNumbers] by simp
  have "dailyShipments (worldWith [''AWB2'', ''AWB1'', ''AWB3''] 2) ''10-03-2024''
          = dailyShipments (worldWith [''AWB2'', ''AWB1'', ''AWB3''] 2)
              (yesterdayDate (worldWith [''AWB2'', ''AWB1'', ''AWB3''] 2))"
    by (simp add: worldWith_def)
  moreover have
    "length (covrzyCalls (snd (processShipmentsForDate (worldWith [''AWB2'', ''AWB1'', ''AWB3''] 2)
               ''10-03-2024'' emptyState)))
       < length (covrzyCalls (snd (processPreviousDayShipments
               (worldWith [''AWB2'', ''AWB1'', ''AWB3''] 2) emptyState)))"
    by code_simp
  ultimately have "\<exists>w' d' st'. dailyShipments w' d' = dailyShipments w' (yesterdayDate w')
          \<and> length (covrzyCalls (snd (processShipmentsForDate w' d' st')))
              < length (covrzyCalls (snd (processPreviousDayShipments w' st')))"
    by blast
  with single sched le show ?thesis by blast
qed

theorem single_date_caps_before_validation_witness:
  "map shipment_awb (covrzyCalls (snd (processShipmentsForDate
       (worldWith [''AWB2'', ''AWB1'', ''AWB3''] 2) ''10-03-2024'' emptyState))) = [''AWB1'']
   \<and> map shipment_awb (covrzyCalls (snd (processPreviousDayShipments
       (worldWith [''AWB2'', ''AWB1'', ''AWB3''] 2) emptyState))) = [''AWB1'', ''AWB3'']
   \<and> validateShipmentOnly_A (worldWith [''AWB2'', ''AWB1'', ''AWB3''] 2) ''AWB2'' (cappedSettings 2)
       = Inl DestinationNotAllowed"
proof -
  define W where "W = worldWith [''AWB2'', ''AWB1'', ''AWB3''] 2"
  define S where "S = cappedSettings 2"
  define L where "L = [''AWB2'', ''AWB1'', ''AWB3'']"
  have h: "dbAvailable W" "settingsRow W = Some S" "dailyShipments W ''10-03-2024'' = Some L"
    "dailyShipments W (yesterdayDate W) = Some L" "0 \<le> maxShipments S"
    by (simp_all add: W_def S_def L_def worldWith_def cappedSettings_def exampleWorld_def
          exampleSettings_def)
  have n: "nat (maxShipments S) = 2"
    by (simp add: S_def cappedSettings_def exampleSettings_def)
  have a: "map shipment_awb (map (payloadOf W) (validVerdicts W S (take 2 L))) = [''AWB1'']"
    unfolding W_def S_def L_def by code_simp
  have b: "map shipment_awb (map (payloadOf W) (take 2 (validVerdicts W S L))) = [''AWB1'', ''AWB3'']"
    unfolding W_def S_def L_def by code_simp
  have c: "validateShipmentOnly_A W ''AWB2'' S = Inl DestinationNotAllowed"
    unfolding W_def S_def by code_simp
  have e: "covrzyCalls emptyState = []" by (simp add: emptyState_def)
  note t = single_date_caps_before_validation [OF h, of emptyState]
  have "map shipment_awb (covrzyCalls (snd (processShipmentsForDate W ''10-03-2024'' emptyState)))
      = [''AWB1'']"
    using t a unfolding n e by simp
  moreover have "map shipment_awb (covrzyCalls (snd (processPreviousDayShipments W emptyState)))
      = [''AWB1'', ''AWB3'']"
    using t b unfolding n e by simp
  ultimately have
    "map shipment_awb (covrzyCalls (snd (processShipmentsForDate W ''10-03-2024'' emptyState)))
       = [''AWB1'']
     \<and> map shipment_awb (covrzyCalls (snd (processPreviousDayShipments W emptyState)))
       = [''AWB1'', ''AWB3'']
     \<and> validateShipmentOnly_A W ''AWB2'' S = Inl DestinationNotAllowed"
    using c by blast
  then show ?thesis
    unfolding W_def S_def L_def .
qed

section \<open>Persisting results\<close>

lemma responseSuccessful_iff:
  "responseSuccessful r = (status r = Some ''success'' \<and> (\<exists>p. policyId r = Some p \<and> p \<noteq> []))"
  by (simp add: responseSuccessful_def split: option.splits)

lemma validateShipmentOnly_A_supplier_named:
  assumes "validateShipmentOnly_A w a s = Inr v"
  shows "company_name (vCustomerInfo v) \<noteq> None"
proof -
  from validateShipmentOnly_A_valid [OF assms] obtain sd where
    "isSupplierAllowed (company_name (customerInfoOf (getCustomerDetails w (Customer_ID sd))))
          (suppliers s)"
    "v = \<lparr>vAwb = a, vShipmentDetails = sd,
              vCustomerInfo = customerInfoOf (getCustomerDetails w (Customer_ID sd))\<rparr>"
    by blast
  then show ?thesis
    by (auto simp: isSupplierAllowed_def split: option.splits)
qed

lemma processingLoop_calls:
  "covrzyCalls (fst (processingLoop w s vs st res errs)) = covrzyCalls st @ map (payloadOf w) vs"
proof -
  obtain st' res' errs' where "processingLoop w s vs st res errs = (st', res', errs')"
    by (cases "processingLoop w s vs st res errs") auto
  from processingLoop_effects [OF this] this show ?thesis by simp
qed

lemma processingLoop_outcomes:
  "\<exists>rs es. snd (processingLoop w s vs st res errs) = (res @ rs, errs @ es)
     \<and> length rs + length es = length vs"
proof -
  obtain st' res' errs' where "processingLoop w s vs st res errs = (st', res', errs')"
    by (cases "processingLoop w s vs st res errs") auto
  from processingLoop_effects [OF this] this show ?thesis by auto
qed

text \<open>
  Claim C5, as the code has it. For a validated shipment and every response of the
  underwriting partner: a response whose status is not \<open>success\<close> or whose policy id is
  not a non-empty string gives a result with \<open>savedToDatabase\<close> false and leaves the
  shipment table as it was, so that a shipment is saved only on a response of that
  shape. On a response of that shape which carries an amount (a number or \<open>null\<close>) the
  row is written when the connection pool hands out a connection; when it does not, the
  save throws, the shipment ends as an error and the table stays as it was. Whatever
  the responses are, the processing loop submits every entry of its list once, in
  order, and records one outcome for each: no response stops the run or causes a second
  submission.
\<close>

theorem persist_iff_successful_response:
  assumes "validateShipmentOnly_A w a s = Inr v"
    and "covrzyApi w (payloadOf w v) = Some response"
  shows "(\<not> (status response = Some ''success'' \<and> (\<exists>p. policyId response = Some p \<and> p \<noteq> []))
          \<longrightarrow> processValidatedShipment w v s st =
                 (Inr \<lparr>coverzyResponse = response, savedToDatabase = False,
                       error = Some ''Coverzy API response not successful''\<rparr>,
                  st\<lparr>covrzyCalls := covrzyCalls st @ [payloadOf w v]\<rparr>))
    \<and> (status response = Some ''success'' \<and> (\<exists>p. policyId response = Some p \<and> p \<noteq> [])
        \<and> amount response \<noteq> Undefined \<and> dbAvailable w
          \<longrightarrow> processValidatedShipment w v s st =
                 (Inr \<lparr>coverzyResponse = response, savedToDatabase = True, error = None\<rparr>,
                  st\<lparr>covrzyCalls := covrzyCalls st @ [payloadOf w v],
                      coverzy_shipments :=
                        upsertRow (rowOf (vAwb v) (company_name (vCustomerInfo v))
                                    (Destination_Country (vShipmentDetails v)) response)
                          (coverzy_shipments st)\<rparr>))
    \<and> (status response = Some ''success'' \<and> (\<exists>p. policyId response = Some p \<and> p \<noteq> [])
        \<and> \<not> dbAvailable w
          \<longrightarrow> processValidatedShipment w v s st =
                 (Inl DatabaseFailed, st\<lparr>covrzyCalls := covrzyCalls st @ [payloadOf w v]\<rparr>))
    \<and> covrzyCalls (fst (processingLoop w s vs st res errs)) = covrzyCalls st @ map (payloadOf w) vs
    \<and> (\<exists>rs es. snd (processingLoop w s vs st res errs) = (res @ rs, errs @ es)
          \<and> length rs + length es = length vs)"
proof -
  note named = validateShipmentOnly_A_supplier_named [OF assms(1)]
  have declined:
    "\<not> (status response = Some ''success'' \<and> (\<exists>p. policyId response = Some p \<and> p \<noteq> []))
          \<longrightarrow> processValidatedShipment w v s st =
                 (Inr \<lparr>coverzyResponse = response, savedToDatabase = False,
                       error = Some ''Coverzy API response not successful''\<rparr>,
                  st\<lparr>covrzyCalls := covrzyCalls st @ [payloadOf w v]\<rparr>)"
    using assms(2) by (simp add: processValidatedShipment_cases responseSuccessful_iff Let_def)
  have saved:
    "status response = Some ''success'' \<and> (\<exists>p. policyId response = Some p \<and> p \<noteq> [])
        \<and> amount response \<noteq> Undefined \<and> dbAvailable w
          \<longrightarrow> processValidatedShipment w v s st =
                 (Inr \<lparr>coverzyResponse = response, savedToDatabase = True, error = None\<rparr>,
                  st\<lparr>covrzyCalls := covrzyCalls st @ [payloadOf w v],
                      coverzy_shipments :=
                        upsertRow (rowOf (vAwb v) (company_name (vCustomerInfo v))
                                    (Destination_Country (vShipmentDetails v)) response)
                          (coverzy_shipments st)\<rparr>)"
    using assms(2) named
    by (auto simp: processValidatedShipment_cases responseSuccessful_iff bindable_def Let_def)
  have failed:
    "status response = Some ''success'' \<and> (\<exists>p. policyId response = Some p \<and> p \<noteq> [])
        \<and> \<not> dbAvailable w
          \<longrightarrow> processValidatedShipment w v s st =
                 (Inl DatabaseFailed, st\<lparr>covrzyCalls := covrzyCalls st @ [payloadOf w v]\<rparr>)"
    using assms(2) by (simp add: processValidatedShipment_cases responseSuccessful_iff Let_def)
  from declined saved failed processingLoop_calls [of w s vs st res errs]
    processingLoop_outcomes [of w s vs st res errs]
  show ?thesis by blast
qed

theorem persist_iff_successful_response_witness:
  "processValidatedShipment decliningWorld exampleVerdict exampleSettings emptyState =
     (Inr \<lparr>coverzyResponse = \<lparr>status = Some ''success'', policyId = Some [], amount = Undefined\<rparr>,
           savedToDatabase = False, error = Some ''Coverzy API response not successful''\<rparr>,
      emptyState\<lparr>covrzyCalls := [payloadOf decliningWorld exampleVerdict]\<rparr>)
   \<and> processValidatedShipment exampleWorld exampleVerdict exampleSettings emptyState =
     (Inr \<lparr>coverzyResponse =
             \<lparr>status = Some ''success'', policyId = Some ''POL-AWB1'', amount = Value 250\<rparr>,
           savedToDatabase = True, error = None\<rparr>,
      emptyState\<lparr>covrzyCalls := [payloadOf exampleWorld exampleVerdict],
                 coverzy_shipments :=
                   [\<lparr>shipment_id = ''AWB1'', supplier_name = Some ''ACME Corp'',
                     destination_country = ''US'', policy_id = Some ''POL-AWB1'',
                     row_amount = Some 250, row_currency = ''INR'', view_pdf = None\<rparr>]\<rparr>)
   \<and> processValidatedShipment offlineWorld exampleVerdict exampleSettings emptyState =
     (Inl DatabaseFailed, emptyState\<lparr>covrzyCalls := [payloadOf offlineWorld exampleVerdict]\<rparr>)
   \<and> map shipment_awb (covrzyCalls (fst (processingLoop decliningWorld exampleSettings
        (validVerdicts decliningWorld exampleSettings [''AWB1'', ''AWB2'', ''AWB3''])
        emptyState [] []))) = [''AWB1'', ''AWB3'']
   \<and> map shipment_id (coverzy_shipments (fst (processingLoop decliningWorld exampleSettings
        (validVerdicts decliningWorld exampleSettings [''AWB1'', ''AWB2'', ''AWB3''])
        emptyState [] []))) = [''AWB3'']"
proof -
  define W where "W = decliningWorld"
  define L where "L = [''AWB1'', ''AWB2'', ''AWB3'']"
  define v where "v = exampleVerdict"
  define declined :: covrzyResponse
    where "declined = \<lparr>status = Some ''success'', policyId = Some [], amount = Undefined\<rparr>"
  define accepted :: covrzyResponse
    where "accepted = \<lparr>status = Some ''success'', policyId = Some ''POL-AWB1'', amount = Value 250\<rparr>"
  have valid: "validateShipmentOnly_A W ''AWB1'' exampleSettings = Inr v"
    "validateShipmentOnly_A exampleWorld ''AWB1'' exampleSettings = Inr v"
    "validateShipmentOnly_A offlineWorld ''AWB1'' exampleSettings = Inr v"
    unfolding W_def v_def by code_simp+
  have api: "covrzyApi W (payloadOf W v) = Some declined"
    "covrzyApi exampleWorld (payloadOf exampleWorld v) = Some accepted"
    "covrzyApi offlineWorld (payloadOf offlineWorld v) = Some accepted"
    unfolding W_def v_def declined_def accepted_def by code_simp+
  have db: "dbAvailable exampleWorld" "\<not> dbAvailable offlineWorld"
    by (simp_all add: offlineWorld_def exampleWorld_def)
  have shape: "\<not> (status declined = Some ''success'' \<and> (\<exists>p. policyId declined = Some p \<and> p \<noteq> []))"
    "status accepted = Some ''success'' \<and> (\<exists>p. policyId accepted = Some p \<and> p \<noteq> [])"
    "amount accepted \<noteq> Undefined"
    by (simp_all add: declined_def accepted_def)
  have row: "upsertRow (rowOf (vAwb v) (company_name (vCustomerInfo v))
                 (Destination_Country (vShipmentDetails v)) accepted) (coverzy_shipments emptyState)
      = [\<lparr>shipment_id = ''AWB1'', supplier_name = Some ''ACME Corp'',
          destination_country = ''US'', policy_id = Some ''POL-AWB1'',
          row_amount = Some 250, row_currency = ''INR'', view_pdf = None\<rparr>]"
    unfolding v_def accepted_def by code_simp
  have sent: "map shipment_awb (map (payloadOf W) (validVerdicts W exampleSettings L))
      = [''AWB1'', ''AWB3'']"
    unfolding W_def L_def by code_simp
  have ids: "map shipment_id (coverzy_shipments (fst (processingLoop W exampleSettings
        (validVerdicts W exampleSettings L) emptyState [] []))) = [''AWB3'']"
    unfolding W_def L_def by code_simp
  have none: "covrzyCalls emptyState = []"
    by (simp add: emptyState_def)
  note t1 = persist_iff_successful_response [OF valid(1) api(1),
      of emptyState "validVerdicts W exampleSettings L" "[]" "[]"]
  note t2 = persist_iff_successful_response [OF valid(2) api(2), of emptyState]
  note t3 = persist_iff_successful_response [OF valid(3) api(3), of emptyState]
  have one: "processValidatedShipment W v exampleSettings emptyState =
      (Inr \<lparr>coverzyResponse = declined, savedToDatabase = False,
            error = Some ''Coverzy API response not successful''\<rparr>,
       emptyState\<lparr>covrzyCalls := [payloadOf W v]\<rparr>)"
    using t1 shape(1) none by simp
  have two: "processValidatedShipment exampleWorld v exampleSettings emptyState =
      (Inr \<lparr>coverzyResponse = accepted, savedToDatabase = True, error = None\<rparr>,
       emptyState\<lparr>covrzyCalls := [payloadOf exampleWorld v],
                  coverzy_shipments :=
                    [\<lparr>shipment_id = ''AWB1'', supplier_name = Some ''ACME Corp'',
                      destination_country = ''US'', policy_id = Some ''POL-AWB1'',
                      row_amount = Some 250, row_currency = ''INR'', view_pdf = None\<rparr>]\<rparr>)"
    using t2 shape(2,3) db(1) none row by simp
  have three: "processValidatedShipment offlineWorld v exampleSettings emptyState =
      (Inl DatabaseFailed, emptyState\<lparr>covrzyCalls := [payloadOf offlineWorld v]\<rparr>)"
    using t3 shape(2) db(2) none by simp
  have calls: "map shipment_awb (covrzyCalls (fst (processingLoop W exampleSettings
        (validVerdicts W exampleSettings L) emptyState [] []))) = [''AWB1'', ''AWB3'']"
    using t1 sent none by simp
  have "processValidatedShipment W v exampleSettings emptyState =
      (Inr \<lparr>coverzyResponse = declined, savedToDatabase = False,
            error = Some ''Coverzy API response not successful''\<rparr>,
       emptyState\<lparr>covrzyCalls := [payloadOf W v]\<rparr>)
   \<and> processValidatedShipment exampleWorld v exampleSettings emptyState =
      (Inr \<lparr>coverzyResponse = accepted, savedToDatabase = True, error = None\<rparr>,
       emptyState\<lparr>covrzyCalls := [payloadOf exampleWorld v],
                  coverzy_shipments :=
                    [\<lparr>shipment_id = ''AWB1'', supplier_name = Some ''ACME Corp'',
                      destination_country = ''US'', policy_id = Some ''POL-AWB1'',
                      row_amount = Some 250, row_currency = ''INR'', view_pdf = None\<rparr>]\<rparr>)
   \<and> processValidatedShipment offlineWorld v exampleSettings emptyState =
      (Inl DatabaseFailed, emptyState\<lparr>covrzyCalls := [payloadOf offlineWorld v]\<rparr>)
   \<and> map shipment_awb (covrzyCalls (fst (processingLoop W exampleSettings
        (validVerdicts W exampleSettings L) emptyState [] []))) = [''AWB1'', ''AWB3'']
   \<and> map shipment_id (coverzy_shipments (fst (processingLoop W exampleSettings
        (validVerdicts W exampleSettings L) emptyState [] []))) = [''AWB3'']"
    by (intro conjI) (rule one two three calls ids)+
  then show ?thesis
    unfolding v_def W_def L_def declined_def accepted_def .
qed

text \<open>
  Saving does not follow from the shape of the response alone. While the connection
  pool hands out no connection, the response with the success status, the policy id
  \<open>POL-AWB1\<close> and the amount 250 ends in the error of the save, with nothing written. A
  response with the success status and a policy id that carries no amount ends in the
  error of the driver, which refuses the \<open>undefined\<close> bind parameter, with nothing written
  either.
\<close>

theorem persist_without_save_counterexample:
  "validateShipmentOnly_A offlineWorld ''AWB1'' exampleSettings = Inr exampleVerdict
   \<and> covrzyApi offlineWorld (payloadOf offlineWorld exampleVerdict) =
       Some \<lparr>status = Some ''success'', policyId = Some ''POL-AWB1'', amount = Value 250\<rparr>
   \<and> processValidatedShipment offlineWorld exampleVerdict exampleSettings emptyState =
       (Inl DatabaseFailed, emptyState\<lparr>covrzyCalls := [payloadOf offlineWorld exampleVerdict]\<rparr>)
   \<and> coverzy_shipments
        (snd (processValidatedShipment offlineWorld exampleVerdict exampleSettings emptyState)) = []
   \<and> validateShipmentOnly_A amountlessWorld ''AWB1'' exampleSettings = Inr exampleVerdict
   \<and> covrzyApi amountlessWorld (payloadOf amountlessWorld exampleVerdict) =
       Some \<lparr>status = Some ''success'', policyId = Some ''POL-AWB1'', amount = Undefined\<rparr>
   \<and> dbAvailable amountlessWorld
   \<and> processValidatedShipment amountlessWorld exampleVerdict exampleSettings emptyState =
       (Inl UndefinedBindParameter,
        emptyState\<lparr>covrzyCalls := [payloadOf amountlessWorld exampleVerdict]\<rparr>)
   \<and> coverzy_shipments
        (snd (processValidatedShipment amountlessWorld exampleVerdict exampleSettings emptyState)) = []"
  by (intro conjI) code_simp+

section \<open>The shipment table\<close>

lemma upsertRow_same_key:
  "shipment_id r2 = shipment_id r1 \<Longrightarrow> upsertRow r2 (upsertRow r1 rows) = upsertRow r2 rows"
  by (induction rows) auto

lemma upsertRow_filter_key:
  "distinct (map shipment_id rows) \<Longrightarrow>
     filter (\<lambda>x. shipment_id x = shipment_id r) (upsertRow r rows) = [r]"
proof (induction rows)
  case Nil
  show ?case by simp
next
  case (Cons x rows)
  show ?case
  proof (cases "shipment_id x = shipment_id r")
    case True
    from Cons.prems have "shipment_id x \<notin> shipment_id ` set rows" by simp
    with True have "\<forall>y \<in> set rows. shipment_id y \<noteq> shipment_id r"
      by (metis imageI)
    then have "filter (\<lambda>x. shipment_id x = shipment_id r) rows = []"
      by (simp add: filter_empty_conv)
    with True show ?thesis by simp
  next
    case False
    with Cons show ?thesis by simp
  qed
qed

lemma upsertRow_filter_others:
  "filter (\<lambda>x. shipment_id x \<noteq> shipment_id r) (upsertRow r rows) =
     filter (\<lambda>x. shipment_id x \<noteq> shipment_id r) rows"
  by (induction rows) auto

lemma upsertRow_distinct:
  "distinct (map shipment_id rows) \<Longrightarrow> distinct (map shipment_id (upsertRow r rows))"
proof (induction rows)
  case Nil
  show ?case by simp
next
  case (Cons x rows)
  then show ?case
    using upsertRow_keys [of r rows] by (auto simp: image_iff)
qed

lemma state_tables_kept:
  "coverzy_shipments (logErrorToDatabase w e st) = coverzy_shipments st"
  "coverzy_shipments (sendCronErrorEmail t st) = coverzy_shipments st"
  "coverzy_shipments (sendDailySummaryEmail m st) = coverzy_shipments st"
  "coverzy_shipments (snd (getCoverzySettings w st)) = coverzy_shipments st"
  by (simp_all add: logErrorToDatabase_def sendCronErrorEmail_def sendDailySummaryEmail_def
        getCoverzySettings_def split: option.splits)

lemma scheduled_run_keeps_rows:
  "set (map shipment_id (coverzy_shipments st))
     \<subseteq> set (map shipment_id (coverzy_shipments (snd (processPreviousDayShipments w st))))"
proof (cases "dbAvailable w \<and> settingsRow w \<noteq> None")
  case False
  then have "getCoverzySettings w st =
      (None, logErrorToDatabase w
               \<lparr>jobName = ''coverzy_daily_shipments'', errorType = ''database_error''\<rparr> st)"
    by (auto simp: getCoverzySettings_def)
  then show ?thesis
    by (simp add: processPreviousDayShipments_def cronFailure_def state_tables_kept)
next
  case True
  then obtain s where s: "dbAvailable w" "settingsRow w = Some s" by auto
  show ?thesis
  proof (cases "dailyShipments w (yesterdayDate w)")
    case None
    then show ?thesis
      using s
      by (simp add: processPreviousDayShipments_def getCoverzySettings_loaded cronFailure_def
            state_tables_kept)
  next
    case (Some as)
    from scheduled_run [OF s Some, of st] show ?thesis by auto
  qed
qed

lemma single_date_run_keeps_rows:
  "set (map shipment_id (coverzy_shipments st))
     \<subseteq> set (map shipment_id (coverzy_shipments (snd (processShipmentsForDate w d st))))"
proof (cases "dbAvailable w \<and> settingsRow w \<noteq> None")
  case False
  then have "getCoverzySettings w st =
      (None, logErrorToDatabase w
               \<lparr>jobName = ''coverzy_daily_shipments'', errorType = ''database_error''\<rparr> st)"
    by (auto simp: getCoverzySettings_def)
  then show ?thesis
    by (simp add: processShipmentsForDate_def state_tables_kept)
next
  case True
  then obtain s where s: "dbAvailable w" "settingsRow w = Some s" by auto
  show ?thesis
  proof (cases "dailyShipments w d")
    case None
    then show ?thesis
      using s by (simp add: processShipmentsForDate_def getCoverzySettings_loaded)
  next
    case (Some as)
    from single_date_run [OF s Some, of st] show ?thesis by auto
  qed
qed

text \<open>
  Claim C6. With the shipment id as unique key, two saves for the same shipment id
  that reach the table (a connection is handed out and the driver accepts the bind
  parameters) leave exactly one row for that id, holding the supplier, destination,
  policy id and amount of the second save and the currency INR; the rows of other ids
  are as before. Neither entry point of the pipeline removes the row of any shipment id.
\<close>

theorem upsert_last_write_wins:
  assumes "dbAvailable w" "distinct (map shipment_id (coverzy_shipments st))"
    and "bindable sup1 r1" "bindable sup2 r2"
  shows "\<exists>st1 st2.
      saveShipmentToDatabase w a sup1 dest1 r1 st = Inr st1
      \<and> saveShipmentToDatabase w a sup2 dest2 r2 st1 = Inr st2
      \<and> filter (\<lambda>x. shipment_id x = a) (coverzy_shipments st2) =
          [\<lparr>shipment_id = a, supplier_name = sup2, destination_country = dest2,
            policy_id = policyId r2, row_amount = sqlValue (amount r2), row_currency = ''INR'',
            view_pdf = None\<rparr>]
      \<and> filter (\<lambda>x. shipment_id x \<noteq> a) (coverzy_shipments st2) =
          filter (\<lambda>x. shipment_id x \<noteq> a) (coverzy_shipments st)
      \<and> distinct (map shipment_id (coverzy_shipments st2))
      \<and> saveShipmentToDatabase w a sup2 dest2 r2 st2 = Inr st2
      \<and> set (map shipment_id (coverzy_shipments st))
          \<subseteq> set (map shipment_id (coverzy_shipments (snd (processPreviousDayShipments w st))))
      \<and> set (map shipment_id (coverzy_shipments st))
          \<subseteq> set (map shipment_id (coverzy_shipments (snd (processShipmentsForDate w d st))))"
proof -
  define row1 where "row1 = rowOf a sup1 dest1 r1"
  define row2 where "row2 = rowOf a sup2 dest2 r2"
  define st1 where "st1 = st\<lparr>coverzy_shipments := upsertRow row1 (coverzy_shipments st)\<rparr>"
  define st2 where "st2 = st1\<lparr>coverzy_shipments := upsertRow row2 (coverzy_shipments st1)\<rparr>"
  have key: "shipment_id row1 = a" "shipment_id row2 = a"
    by (simp_all add: row1_def row2_def rowOf_def)
  have s1: "saveShipmentToDatabase w a sup1 dest1 r1 st = Inr st1"
    using assms(1,3) by (simp add: saveShipmentToDatabase_def st1_def row1_def rowOf_def)
  have s2: "saveShipmentToDatabase w a sup2 dest2 r2 st1 = Inr st2"
    using assms(1,4) by (simp add: saveShipmentToDatabase_def st2_def row2_def rowOf_def)
  have table: "coverzy_shipments st2 = upsertRow row2 (coverzy_shipments st)"
    using upsertRow_same_key [of row2 row1 "coverzy_shipments st"] key
    by (simp add: st2_def st1_def)
  have one: "filter (\<lambda>x. shipment_id x = a) (coverzy_shipments st2) = [row2]"
    using upsertRow_filter_key [OF assms(2), of row2] key(2) by (simp add: table)
  have others: "filter (\<lambda>x. shipment_id x \<noteq> a) (coverzy_shipments st2) =
          filter (\<lambda>x. shipment_id x \<noteq> a) (coverzy_shipments st)"
    using upsertRow_filter_others [of row2 "coverzy_shipments st"] key(2) by (simp add: table)
  have dist: "distinct (map shipment_id (coverzy_shipments st2))"
    unfolding table using assms(2) by (rule upsertRow_distinct)
  have again: "saveShipmentToDatabase w a sup2 dest2 r2 st2 = Inr st2"
    using assms(1,4) upsertRow_same_key [of row2 row2 "coverzy_shipments st"]
    by (simp add: saveShipmentToDatabase_def table row2_def [symmetric] rowOf_def [symmetric])
  show ?thesis
    using s1 s2 one others dist again scheduled_run_keeps_rows [of st w]
      single_date_run_keeps_rows [of st w d]
    unfolding row2_def rowOf_def by blast
qed

theorem upsert_last_write_wins_witness:
  "\<exists>st1 st2.
      saveShipmentToDatabase exampleWorld ''AWB1'' (Some ''ACME Corp'') ''US''
          \<lparr>status = Some ''success'', policyId = Some ''POL-1'', amount = Value 250\<rparr>
          (emptyState\<lparr>coverzy_shipments :=
             [rowOf ''AWB9'' (Some ''Acme'') ''GB''
                \<lparr>status = Some ''success'', policyId = Some ''POL-9'', amount = Value 100\<rparr>,
              rowOf ''AWB1'' (Some ''ACME Corp'') ''US''
                \<lparr>status = Some ''success'', policyId = Some ''POL-0'', amount = Value 200\<rparr>]\<rparr>)
        = Inr st1
      \<and> saveShipmentToDatabase exampleWorld ''AWB1'' (Some ''ACME Corp'') ''US''
          \<lparr>status = Some ''success'', policyId = Some ''POL-2'', amount = Value 300\<rparr> st1
        = Inr st2
      \<and> filter (\<lambda>x. shipment_id x = ''AWB1'') (coverzy_shipments st2) =
          [\<lparr>shipment_id = ''AWB1'', supplier_name = Some ''ACME Corp'', destination_country = ''US'',
            policy_id = Some ''POL-2'', row_amount = Some 300, row_currency = ''INR'',
            view_pdf = None\<rparr>]
      \<and> filter (\<lambda>x. shipment_id x \<noteq> ''AWB1'') (coverzy_shipments st2) =
          [rowOf ''AWB9'' (Some ''Acme'') ''GB''
             \<lparr>status = Some ''success'', policyId = Some ''POL-9'', amount = Value 100\<rparr>]"
proof -
  define row9 where "row9 = rowOf ''AWB9'' (Some ''Acme'') ''GB''
      \<lparr>status = Some ''success'', policyId = Some ''POL-9'', amount = Value 100\<rparr>"
  define row0 where "row0 = rowOf ''AWB1'' (Some ''ACME Corp'') ''US''
      \<lparr>status = Some ''success'', policyId = Some ''POL-0'', amount = Value 200\<rparr>"
  define ST where "ST = emptyState\<lparr>coverzy_shipments := [row9, row0]\<rparr>"
  define r1 :: covrzyResponse
    where "r1 = \<lparr>status = Some ''success'', policyId = Some ''POL-1'', amount = Value 250\<rparr>"
  define r2 :: covrzyResponse
    where "r2 = \<lparr>status = Some ''success'', policyId = Some ''POL-2'', amount = Value 300\<rparr>"
  have db: "dbAvailable exampleWorld" by (simp add: exampleWorld_def)
  have keys: "distinct (map shipment_id (coverzy_shipments ST))"
    by (simp add: ST_def row9_def row0_def rowOf_def)
  have others: "filter (\<lambda>x. shipment_id x \<noteq> ''AWB1'') (coverzy_shipments ST) = [row9]"
    by (simp add: ST_def row9_def row0_def rowOf_def)
  have fields: "policyId r2 = Some ''POL-2''" "sqlValue (amount r2) = Some 300"
    by (simp_all add: r2_def sqlValue_def)
  have bind: "bindable (Some ''ACME Corp'') r1" "bindable (Some ''ACME Corp'') r2"
    by (simp_all add: bindable_def r1_def r2_def)
  from upsert_last_write_wins [OF db keys bind, of "''AWB1''" "''US''"
      "''US''" "''10-03-2024''"]
  obtain st1 st2 where t:
    "saveShipmentToDatabase exampleWorld ''AWB1'' (Some ''ACME Corp'') ''US'' r1 ST = Inr st1"
    "saveShipmentToDatabase exampleWorld ''AWB1'' (Some ''ACME Corp'') ''US'' r2 st1 = Inr st2"
    "filter (\<lambda>x. shipment_id x = ''AWB1'') (coverzy_shipments st2) =
          [\<lparr>shipment_id = ''AWB1'', supplier_name = Some ''ACME Corp'', destination_country = ''US'',
            policy_id = policyId r2, row_amount = sqlValue (amount r2), row_currency = ''INR'',
            view_pdf = None\<rparr>]"
    "filter (\<lambda>x. shipment_id x \<noteq> ''AWB1'') (coverzy_shipments st2) =
          filter (\<lambda>x. shipment_id x \<noteq> ''AWB1'') (coverzy_shipments ST)"
    by blast
  have "\<exists>st1 st2.
      saveShipmentToDatabase exampleWorld ''AWB1'' (Some ''ACME Corp'') ''US'' r1 ST = Inr st1
      \<and> saveShipmentToDatabase exampleWorld ''AWB1'' (Some ''ACME Corp'') ''US'' r2 st1 = Inr st2
      \<and> filter (\<lambda>x. shipment_id x = ''AWB1'') (coverzy_shipments st2) =
          [\<lparr>shipment_id = ''AWB1'', supplier_name = Some ''ACME Corp'', destination_country = ''US'',
            policy_id = Some ''POL-2'', row_amount = Some 300, row_currency = ''INR'',
            view_pdf = None\<rparr>]
      \<and> filter (\<lambda>x. shipment_id x \<noteq> ''AWB1'') (coverzy_shipments st2) = [row9]"
    using t(1) t(2) t(3) [unfolded fields] t(4) [unfolded others]
    by (intro exI [of _ st1] exI [of _ st2] conjI)
  then show ?thesis
    unfolding ST_def row9_def row0_def r1_def r2_def .
qed

end
